theory Spec2Isabelle
  imports Complex_Main
begin

section \<open>JavaScript numbers and strings\<close>

text \<open>
  The plugin computes with JavaScript numbers. They are modelled as exact reals together
  with the value \<open>NaN\<close>, which every arithmetic operation propagates and which every
  comparison answers with false. The rounding error of IEEE doubles and the infinities are
  not modelled: the program divides only by non-zero constants, and every property below
  is either structural or holds with a margin far above double precision.
  Strings are lists of characters; \<open>toLowerCase\<close> and the white space of \<open>parseInt\<close>
  are those of ASCII, the alphabet of the names and colour strings considered here.
\<close>

datatype jsnum = NaN | Fin real

fun jadd :: "jsnum \<Rightarrow> jsnum \<Rightarrow> jsnum" where
  "jadd (Fin a) (Fin b) = Fin (a + b)"
| "jadd _ _ = NaN"

fun jsub :: "jsnum \<Rightarrow> jsnum \<Rightarrow> jsnum" where
  "jsub (Fin a) (Fin b) = Fin (a - b)"
| "jsub _ _ = NaN"

fun jmul :: "jsnum \<Rightarrow> jsnum \<Rightarrow> jsnum" where
  "jmul (Fin a) (Fin b) = Fin (a * b)"
| "jmul _ _ = NaN"

text \<open>Division; the program's divisors are the constants 255, 12.92 and 1.055.\<close>

fun jdiv :: "jsnum \<Rightarrow> jsnum \<Rightarrow> jsnum" where
  "jdiv (Fin a) (Fin b) = Fin (a / b)"
| "jdiv _ _ = NaN"

fun jle :: "jsnum \<Rightarrow> jsnum \<Rightarrow> bool" where
  "jle (Fin a) (Fin b) = (a \<le> b)"
| "jle _ _ = False"

fun jlt :: "jsnum \<Rightarrow> jsnum \<Rightarrow> bool" where
  "jlt (Fin a) (Fin b) = (a < b)"
| "jlt _ _ = False"

text \<open>
  \<open>Math.pow\<close> for a non-negative base and a positive exponent (the program raises a base
  above 0.09 to the power 2.4); a negative base with the exponent 2.4 is \<open>NaN\<close>.
\<close>

fun Math_pow :: "jsnum \<Rightarrow> jsnum \<Rightarrow> jsnum" where
  "Math_pow (Fin x) (Fin y) = (if 0 \<le> x then Fin (x powr y) else NaN)"
| "Math_pow _ _ = NaN"

fun Math_cbrt :: "jsnum \<Rightarrow> jsnum" where
  "Math_cbrt (Fin x) = Fin (root 3 x)"
| "Math_cbrt NaN = NaN"

fun Math_sqrt :: "jsnum \<Rightarrow> jsnum" where
  "Math_sqrt (Fin x) = (if 0 \<le> x then Fin (sqrt x) else NaN)"
| "Math_sqrt NaN = NaN"

definition atan2 :: "real \<Rightarrow> real \<Rightarrow> real" where
  "atan2 y x =
     (if 0 < x then arctan (y / x)
      else if x < 0 then (if 0 \<le> y then arctan (y / x) + pi else arctan (y / x) - pi)
      else if 0 < y then pi / 2
      else if y < 0 then - (pi / 2)
      else 0)"

fun Math_atan2 :: "jsnum \<Rightarrow> jsnum \<Rightarrow> jsnum" where
  "Math_atan2 (Fin y) (Fin x) = Fin (atan2 y x)"
| "Math_atan2 _ _ = NaN"

text \<open>\<open>Math.round\<close>: the nearest integer, a tie going up.\<close>

definition Math_round :: "real \<Rightarrow> int" where
  "Math_round x = \<lfloor>x + 1 / 2\<rfloor>"

text \<open>
  \<open>Number(x.toFixed(d))\<close>: the sign is set aside, the magnitude is rounded to the nearest
  multiple of \<open>10\<^sup>-\<^sup>d\<close> (of two equally near ones the larger), and the decimal
  string is read back as a number. \<open>NaN.toFixed(d)\<close> is the string \<open>NaN\<close>, read back as
  \<open>NaN\<close>.
\<close>

fun toFixedNumber :: "jsnum \<Rightarrow> nat \<Rightarrow> jsnum" where
  "toFixedNumber NaN d = NaN"
| "toFixedNumber (Fin x) d =
     Fin (real_of_int (if x < 0 then - \<lfloor>- x * 10 ^ d + 1 / 2\<rfloor> else \<lfloor>x * 10 ^ d + 1 / 2\<rfloor>) / 10 ^ d)"

definition digitChar :: "nat \<Rightarrow> char" where
  "digitChar n = ''0123456789abcdef'' ! n"

fun decimalDigits :: "nat \<Rightarrow> string" where
  "decimalDigits n =
     (if n < 10 then [digitChar n] else decimalDigits (n div 10) @ [digitChar (n mod 10)])"

fun hexDigits :: "nat \<Rightarrow> string" where
  "hexDigits n =
     (if n < 16 then [digitChar n] else hexDigits (n div 16) @ [digitChar (n mod 16)])"

fun padDigits :: "nat \<Rightarrow> nat \<Rightarrow> string" where
  "padDigits 0 f = []"
| "padDigits (Suc d) f = padDigits d (f div 10) @ [digitChar (f mod 10)]"

definition stripTrailingZeros :: "string \<Rightarrow> string" where
  "stripTrailingZeros s = rev (dropWhile (\<lambda>c. c = CHR ''0'') (rev s))"

text \<open>
  The string of a number inside a template literal, for the numbers this program prints:
  results of \<open>toFixedNumber\<close> with at most three decimals, whose shortest decimal form is
  the fixed one without its trailing zeros (and without the sign of a negative zero).
\<close>

fun numberToString :: "jsnum \<Rightarrow> string" where
  "numberToString NaN = ''NaN''"
| "numberToString (Fin x) =
     (let n = \<lfloor>x * 1000 + 1 / 2\<rfloor>;
          a = nat \<bar>n\<bar>;
          fr = stripTrailingZeros (padDigits 3 (a mod 1000))
      in (if n < 0 then ''-'' else [])
         @ decimalDigits (a div 1000)
         @ (if fr = [] then [] else CHR ''.'' # fr))"

text \<open>\<open>k.toString(16)\<close> for an integer \<open>k\<close>.\<close>

definition intToString16 :: "int \<Rightarrow> string" where
  "intToString16 k = (if k < 0 then ''-'' else []) @ hexDigits (nat \<bar>k\<bar>)"

definition hexDigitValue :: "char \<Rightarrow> nat option" where
  "hexDigitValue c =
     (let n = (of_char c :: nat) in
      if 48 \<le> n \<and> n \<le> 57 then Some (n - 48)
      else if 65 \<le> n \<and> n \<le> 70 then Some (n - 55)
      else if 97 \<le> n \<and> n \<le> 102 then Some (n - 87)
      else None)"

definition isHexDigit :: "char \<Rightarrow> bool" where
  "isHexDigit c = (hexDigitValue c \<noteq> None)"

definition isWhiteSpace :: "char \<Rightarrow> bool" where
  "isWhiteSpace c = ((of_char c :: nat) \<in> {9, 10, 11, 12, 13, 32})"

text \<open>
  \<open>parseInt(s, 16)\<close>: leading white space is skipped, then a sign, then a \<open>0x\<close> prefix; the
  longest run of hexadecimal digits that follows is the value, and \<open>NaN\<close> when there is
  none.
\<close>

definition parseInt16 :: "string \<Rightarrow> jsnum" where
  "parseInt16 s =
     (let s1 = dropWhile isWhiteSpace s;
          neg = (case s1 of c # _ \<Rightarrow> c = CHR ''-'' | [] \<Rightarrow> False);
          s2 = (case s1 of c # t \<Rightarrow> if c = CHR ''-'' \<or> c = CHR ''+'' then t else s1 | [] \<Rightarrow> s1);
          s3 = (case s2 of c # x # t \<Rightarrow>
                  if c = CHR ''0'' \<and> (x = CHR ''x'' \<or> x = CHR ''X'') then t else s2
                | _ \<Rightarrow> s2);
          ds = takeWhile isHexDigit s3;
          v = foldl (\<lambda>a c. 16 * a + the (hexDigitValue c)) 0 ds
      in if ds = [] then NaN else Fin (if neg then - real v else real v))"

text \<open>\<open>s.slice(a, b)\<close> for \<open>0 \<le> a \<le> b\<close>.\<close>

definition slice :: "string \<Rightarrow> nat \<Rightarrow> nat \<Rightarrow> string" where
  "slice s a b = take (b - a) (drop a s)"

text \<open>\<open>s.replace(c, '')\<close> with a one-character string pattern: the first occurrence goes.\<close>

fun removeFirst :: "char \<Rightarrow> string \<Rightarrow> string" where
  "removeFirst c [] = []"
| "removeFirst c (x # xs) = (if x = c then xs else x # removeFirst c xs)"

definition lowerChar :: "char \<Rightarrow> char" where
  "lowerChar c =
     (case map_of (zip ''ABCDEFGHIJKLMNOPQRSTUVWXYZ'' ''abcdefghijklmnopqrstuvwxyz'') c of
        Some d \<Rightarrow> d
      | None \<Rightarrow> c)"

definition toLowerCase :: "string \<Rightarrow> string" where
  "toLowerCase s = map lowerChar s"

fun includes_str :: "string \<Rightarrow> string \<Rightarrow> bool" where
  "includes_str [] p = (p = [])"
| "includes_str (c # s) p = (take (length p) (c # s) = p \<or> includes_str s p)"

definition startsWith :: "string \<Rightarrow> string \<Rightarrow> bool" where
  "startsWith s p = (take (length p) s = p)"

section \<open>The colorimetric converter\<close>

definition gammaToLinear :: "jsnum \<Rightarrow> jsnum" where
  "gammaToLinear v =
     (if jle v (Fin 0.04045) then jdiv v (Fin 12.92)
      else Math_pow (jdiv (jadd v (Fin 0.055)) (Fin 1.055)) (Fin 2.4))"

definition xyzToOklab :: "jsnum \<Rightarrow> jsnum \<Rightarrow> jsnum \<Rightarrow> jsnum \<times> jsnum \<times> jsnum" where
  "xyzToOklab x y z =
     (let l = jsub (jadd (jmul (Fin 0.8189330101) x) (jmul (Fin 0.3618667424) y))
                   (jmul (Fin 0.1288597137) z);
          m = jadd (jadd (jmul (Fin 0.0329845436) x) (jmul (Fin 0.9293118715) y))
                   (jmul (Fin 0.0361456387) z);
          s = jadd (jadd (jmul (Fin 0.0482003018) x) (jmul (Fin 0.2643662691) y))
                   (jmul (Fin 0.6338517070) z);
          lRoot = Math_cbrt l;
          mRoot = Math_cbrt m;
          sRoot = Math_cbrt s;
          L = jsub (jadd (jmul (Fin 0.2104542553) lRoot) (jmul (Fin 0.7936177850) mRoot))
                   (jmul (Fin 0.0040720468) sRoot);
          a = jadd (jsub (jmul (Fin 1.9779984951) lRoot) (jmul (Fin 2.4285922050) mRoot))
                   (jmul (Fin 0.4505937099) sRoot);
          b = jsub (jadd (jmul (Fin 0.0259040371) lRoot) (jmul (Fin 0.7827717662) mRoot))
                   (jmul (Fin 0.8086757660) sRoot)
      in (L, a, b))"

definition rgbToOklch :: "jsnum \<Rightarrow> jsnum \<Rightarrow> jsnum \<Rightarrow> jsnum \<times> jsnum \<times> jsnum" where
  "rgbToOklch r g b =
     (let linearR = gammaToLinear r;
          linearG = gammaToLinear g;
          linearB = gammaToLinear b;
          x = jadd (jadd (jmul (Fin 0.4124564) linearR) (jmul (Fin 0.3575761) linearG))
                   (jmul (Fin 0.1804375) linearB);
          y = jadd (jadd (jmul (Fin 0.2126729) linearR) (jmul (Fin 0.7151522) linearG))
                   (jmul (Fin 0.0721750) linearB);
          z = jadd (jadd (jmul (Fin 0.0193339) linearR) (jmul (Fin 0.1191920) linearG))
                   (jmul (Fin 0.9503041) linearB);
          (okL, okA, okB) = xyzToOklab x y z;
          C = Math_sqrt (jadd (jmul okA okA) (jmul okB okB));
          H0 = jmul (Math_atan2 okB okA) (Fin (180 / pi));
          H = (if jlt H0 (Fin 0) then jadd H0 (Fin 360) else H0)
      in (okL, C, H))"

definition hexToOklch :: "string \<Rightarrow> string" where
  "hexToOklch hex0 =
     (let hex1 = removeFirst (CHR ''#'') hex0;
          hex = (if length hex1 = 3 then concat (map (\<lambda>c. [c, c]) hex1) else hex1);
          r = jdiv (parseInt16 (slice hex 0 2)) (Fin 255);
          g = jdiv (parseInt16 (slice hex 2 4)) (Fin 255);
          b = jdiv (parseInt16 (slice hex 4 6)) (Fin 255);
          (oL, oC, oH) = rgbToOklch r g b;
          L = toFixedNumber oL 3;
          C = toFixedNumber oC 3;
          H = toFixedNumber oH 1
      in if jlt C (Fin 0.004) then ''oklch('' @ numberToString L @ '' 0 0)''
         else ''oklch('' @ numberToString L @ '' '' @ numberToString C @ '' ''
              @ numberToString H @ '')'')"

text \<open>
  The channels of a stored colour are reals in the unit interval. The product \<open>n * 255\<close> is
  taken exactly here, while the program rounds it to a double before \<open>Math.round\<close> sees
  it: for a channel whose exact product lies within double precision of a half-integer
  (the double nearest to 0.3 has the exact product just below 76.5, and the double
  product 76.5) the program's digit pair can be one above the one computed here. The
  statements below use this function only on the channels 0 and 1, whose products are
  exact in both, or leave the channels arbitrary and do not depend on the digits.
\<close>

definition figmaRgbToHex :: "real \<Rightarrow> real \<Rightarrow> real \<Rightarrow> string" where
  "figmaRgbToHex r g b =
     (let toHex = (\<lambda>n. let hex = intToString16 (Math_round (n * 255))
                        in if length hex = 1 then CHR ''0'' # hex else hex)
      in CHR ''#'' # toHex r @ toHex g @ toHex b)"

text \<open>
  The first lines of \<open>hexToOklch\<close> on their own: the three channels read from the string, and
  the unrounded \<open>(L, C, H)\<close> that \<open>rgbToOklch\<close> returns for them. Statements about the
  chroma before rounding are stated with these.
\<close>

definition hexChannels :: "string \<Rightarrow> jsnum \<times> jsnum \<times> jsnum" where
  "hexChannels hex0 =
     (let hex1 = removeFirst (CHR ''#'') hex0;
          hex = (if length hex1 = 3 then concat (map (\<lambda>c. [c, c]) hex1) else hex1);
          r = jdiv (parseInt16 (slice hex 0 2)) (Fin 255);
          g = jdiv (parseInt16 (slice hex 2 4)) (Fin 255);
          b = jdiv (parseInt16 (slice hex 4 6)) (Fin 255)
      in (r, g, b))"

definition oklchOfHex :: "string \<Rightarrow> jsnum \<times> jsnum \<times> jsnum" where
  "oklchOfHex hex0 = (case hexChannels hex0 of (r, g, b) \<Rightarrow> rgbToOklch r g b)"

section \<open>The host store\<close>

text \<open>
  The design tool's document, as the plugin sees it through four asynchronous queries:
  the collections and the variables in the host's enumeration order, looked up by their
  identifiers, and for every query whether the host rejects it (with the error it throws).
\<close>

record mode =
  modeId :: string
  mode_name :: string

record variableCollection =
  collection_id :: string
  collection_name :: string
  modes :: "mode list"

text \<open>
  A value of a variable in one mode: a colour object with the fields \<open>r\<close>, \<open>g\<close>, \<open>b\<close>, a
  string, an alias object with the identifier of the variable it refers to, or anything
  else (a number, a boolean, an object of another shape).
\<close>

datatype variableValue =
    RGB real real real
  | StringValue string
  | VariableAlias string
  | OtherValue

datatype resolvedType = COLOR | FLOAT | STRING | BOOLEAN

record variable =
  variable_id :: string
  variable_name :: string
  variableCollectionId :: string
  resolvedType :: resolvedType
  valuesByMode :: "string \<rightharpoonup> variableValue"

datatype host_call =
    GetLocalVariableCollections
  | GetLocalVariables
  | GetVariableById string
  | GetVariableCollectionById string

datatype thrown = Error string

record host =
  host_collections :: "variableCollection list"
  host_variables :: "variable list"
  host_rejects :: "host_call \<rightharpoonup> thrown"

text \<open>
  An asynchronous computation: the host queries it made, in order, and either the error
  it threw (\<open>Inl\<close>) or its value (\<open>Inr\<close>). \<open>await\<close> runs a computation and passes its
  value on; an error ends the whole chain, as an uncaught rejection does.
\<close>

type_synonym 'a async = "host_call list \<times> (thrown + 'a)"

definition returns :: "'a \<Rightarrow> 'a async" where
  "returns x = ([], Inr x)"

definition throws :: "thrown \<Rightarrow> 'a async" where
  "throws e = ([], Inl e)"

definition await :: "'a async \<Rightarrow> ('a \<Rightarrow> 'b async) \<Rightarrow> 'b async" where
  "await m f =
     (case m of
        (cs, Inl e) \<Rightarrow> (cs, Inl e)
      | (cs, Inr x) \<Rightarrow> (case f x of (cs', r) \<Rightarrow> (cs @ cs', r)))"

definition query :: "host \<Rightarrow> host_call \<Rightarrow> 'a \<Rightarrow> 'a async" where
  "query h c x = ([c], case host_rejects h c of Some e \<Rightarrow> Inl e | None \<Rightarrow> Inr x)"

definition getLocalVariableCollectionsAsync :: "host \<Rightarrow> variableCollection list async" where
  "getLocalVariableCollectionsAsync h = query h GetLocalVariableCollections (host_collections h)"

definition getLocalVariablesAsync :: "host \<Rightarrow> resolvedType \<Rightarrow> variable list async" where
  "getLocalVariablesAsync h t =
     query h GetLocalVariables (filter (\<lambda>v. resolvedType v = t) (host_variables h))"

definition getVariableByIdAsync :: "host \<Rightarrow> string \<Rightarrow> variable option async" where
  "getVariableByIdAsync h i =
     query h (GetVariableById i) (find (\<lambda>v. variable_id v = i) (host_variables h))"

definition getVariableCollectionByIdAsync :: "host \<Rightarrow> string \<Rightarrow> variableCollection option async" where
  "getVariableCollectionByIdAsync h i =
     query h (GetVariableCollectionById i) (find (\<lambda>c. collection_id c = i) (host_collections h))"

lemma await_cong [fundef_cong]:
  assumes "m = m'" and "\<And>cs x. m' = (cs, Inr x) \<Longrightarrow> f x = f' x"
  shows "await m f = await m' f'"
  using assms by (auto simp: await_def split: prod.splits sum.splits)

section \<open>The alias resolver\<close>

text \<open>The format guard \<open>/^#[0-9A-Fa-f]{3,6}$/\<close>.\<close>

definition hexFormat :: "string \<Rightarrow> bool" where
  "hexFormat s =
     (case s of
        [] \<Rightarrow> False
      | c # ds \<Rightarrow> c = CHR ''#'' \<and> 3 \<le> length ds \<and> length ds \<le> 6 \<and> list_all isHexDigit ds)"

text \<open>
  \<open>visited\<close> is one mutable set shared by the whole call chain; the recursive call sees it
  with the current variable's identifier added. A missing or empty-string value is falsy.
\<close>

function resolveVariableValue ::
  "host \<Rightarrow> variable \<Rightarrow> string \<Rightarrow> string set \<Rightarrow> string option async" where
  "resolveVariableValue h variable mId visited =
     (if variable_id variable \<in> visited then returns None
      else
        (case valuesByMode variable mId of
           None \<Rightarrow> returns None
         | Some (RGB r g b) \<Rightarrow> returns (Some (hexToOklch (figmaRgbToHex r g b)))
         | Some (StringValue s) \<Rightarrow>
             (if s \<noteq> [] \<and> hexFormat s then returns (Some (hexToOklch s)) else returns None)
         | Some OtherValue \<Rightarrow> returns None
         | Some (VariableAlias i) \<Rightarrow>
             await (getVariableByIdAsync h i) (\<lambda>aliasedVariable.
               case aliasedVariable of
                 None \<Rightarrow> returns None
               | Some aliased \<Rightarrow>
                   await (getVariableCollectionByIdAsync h (variableCollectionId aliased))
                     (\<lambda>aliasedCollection.
                       case aliasedCollection of
                         None \<Rightarrow> returns None
                       | Some ac \<Rightarrow>
                           await
                             (case (find (\<lambda>m. toLowerCase (mode_name m) = ''light'') (modes ac),
                                    find (\<lambda>m. toLowerCase (mode_name m) = ''dark'') (modes ac)) of
                                (Some lightMode, Some darkMode) \<Rightarrow>
                                  await (getVariableCollectionByIdAsync h (variableCollectionId variable))
                                    (\<lambda>currentModeCollection.
                                      let currentMode =
                                            (case currentModeCollection of
                                               None \<Rightarrow> None
                                             | Some c \<Rightarrow> find (\<lambda>m. modeId m = mId) (modes c))
                                      in returns
                                           (if map_option (\<lambda>m. toLowerCase (mode_name m)) currentMode
                                                = Some ''light''
                                            then modeId lightMode
                                            else if map_option (\<lambda>m. toLowerCase (mode_name m)) currentMode
                                                = Some ''dark''
                                            then modeId darkMode
                                            else mId))
                              | _ \<Rightarrow>
                                  (if length (modes ac) = 1 then returns (modeId (hd (modes ac)))
                                   else returns mId))
                             (\<lambda>targetModeId.
                                resolveVariableValue h aliased targetModeId
                                  (insert (variable_id variable) visited))))))"
  apply pat_completeness
  apply (elim Pair_inject)
  apply hypsubst
  apply (rule refl)
  done

lemma find_variable_id:
  "find (\<lambda>v. variable_id v = i) vs = Some w \<Longrightarrow> variable_id w = i \<and> w \<in> set vs"
  by (induction vs) (auto split: if_splits)

lemma getVariableByIdAsync_Some:
  "getVariableByIdAsync h i = (cs, Inr (Some w)) \<Longrightarrow>
     variable_id w = i \<and> w \<in> set (host_variables h)"
  by (auto simp: getVariableByIdAsync_def query_def split: option.splits dest: find_variable_id)

text \<open>
  Every recursive call is on a variable of the store, with the caller's identifier added
  to \<open>visited\<close>: the number of stored identifiers not yet visited goes down.
\<close>

lemma resolve_measure_decreases:
  assumes "variable_id v \<notin> vis" and "w \<in> set (host_variables h)"
  shows "((h, w, t, insert (variable_id v) vis), (h, v, m, vis)) \<in> measure (\<lambda>(h, v, m, vis).
         if variable_id v \<in> vis then 0
         else Suc (card (variable_id ` set (host_variables h) - insert (variable_id v) vis)))"
proof (cases "variable_id w \<in> insert (variable_id v) vis")
  case True
  with assms(1) show ?thesis by simp
next
  case False
  let ?S = "variable_id ` set (host_variables h)"
  let ?vis = "insert (variable_id v) vis"
  have "variable_id w \<in> ?S - ?vis" using assms(2) False by blast
  moreover have "finite (?S - ?vis)" by simp
  ultimately have "card (?S - ?vis - {variable_id w}) < card (?S - ?vis)"
    by (rule card_Diff1_less[rotated])
  moreover have "?S - insert (variable_id w) ?vis = ?S - ?vis - {variable_id w}"
    by blast
  ultimately show ?thesis using assms(1) False by simp
qed

termination resolveVariableValue
  apply (relation "measure (\<lambda>(h, v, m, vis).
         if variable_id v \<in> vis then 0
         else Suc (card (variable_id ` set (host_variables h) - insert (variable_id v) vis)))")
  subgoal by (rule wf_measure)
  subgoal premises prems for h variable mId visited x2 x3 cs x x2a
    using prems(1) getVariableByIdAsync_Some[OF prems(4)[unfolded prems(5)], THEN conjunct2]
    by (rule resolve_measure_decreases)
  done

declare resolveVariableValue.simps [simp del]

section \<open>Collection selection, variable filter and the export run\<close>

record processedVariable =
  name :: string
  cleanName :: string
  lightValue :: string
  darkValue :: string

record exportResult =
  variables :: "processedVariable list"
  collectionName :: string

definition dq :: string where
  "dq = [CHR 0x22]"

definition nl :: string where
  "nl = [CHR 0x0A]"

fun join_str :: "string \<Rightarrow> string list \<Rightarrow> string" where
  "join_str sep [] = []"
| "join_str sep [x] = x"
| "join_str sep (x # y # ys) = x @ sep @ join_str sep (y # ys)"

definition findModeCollection :: "host \<Rightarrow> variableCollection async" where
  "findModeCollection h =
     await (getLocalVariableCollectionsAsync h) (\<lambda>collections.
       let modeCollections =
             filter (\<lambda>collection. includes_str (toLowerCase (collection_name collection)) ''mode'')
               collections
       in if length modeCollections = 0
          then throws (Error (''No collection found with '' @ dq @ ''Mode'' @ dq
                 @ '' in the name. Please create a collection containing '' @ dq @ ''Mode'' @ dq
                 @ '' in its name.''))
          else returns (hd modeCollections))"

text \<open>A \<open>string | null\<close> is falsy when it is null or the empty string.\<close>

definition falsy :: "string option \<Rightarrow> bool" where
  "falsy r = (case r of None \<Rightarrow> True | Some s \<Rightarrow> s = [])"

definition replaceSlashes :: "string \<Rightarrow> string" where
  "replaceSlashes s = map (\<lambda>c. if c = CHR ''/'' then CHR ''-'' else c) s"

text \<open>
  The loop over the \<open>base/\<close> variables; \<open>acc\<close> is the array \<open>processedVariables\<close>. Each
  resolution starts from a fresh, empty \<open>visited\<close> set.
\<close>

fun processVariables ::
  "host \<Rightarrow> mode \<Rightarrow> mode \<Rightarrow> variable list \<Rightarrow> processedVariable list
     \<Rightarrow> processedVariable list async" where
  "processVariables h lightMode darkMode [] acc = returns acc"
| "processVariables h lightMode darkMode (v # vs) acc =
     await (resolveVariableValue h v (modeId lightMode) {}) (\<lambda>lightV.
       await (resolveVariableValue h v (modeId darkMode) {}) (\<lambda>darkV.
         if falsy lightV \<or> falsy darkV then processVariables h lightMode darkMode vs acc
         else
           let cleaned = replaceSlashes (drop 5 (variable_name v))
           in processVariables h lightMode darkMode vs
                (acc @ [\<lparr>name = variable_name v, cleanName = cleaned,
                         lightValue = the lightV, darkValue = the darkV\<rparr>])))"

definition processSemanticVariables :: "host \<Rightarrow> exportResult async" where
  "processSemanticVariables h =
     await (findModeCollection h) (\<lambda>modeCollection.
       case (find (\<lambda>m. toLowerCase (mode_name m) = ''light'') (modes modeCollection),
             find (\<lambda>m. toLowerCase (mode_name m) = ''dark'') (modes modeCollection)) of
         (Some lightMode, Some darkMode) \<Rightarrow>
           await (getLocalVariablesAsync h COLOR) (\<lambda>allVariables.
             let collectionVariables =
                   filter (\<lambda>v. variableCollectionId v = collection_id modeCollection) allVariables;
                 baseVariables =
                   filter (\<lambda>v. startsWith (variable_name v) ''base/'') collectionVariables
             in await (processVariables h lightMode darkMode baseVariables [])
                  (\<lambda>processedVariables.
                    if length processedVariables = 0
                    then throws (Error (''No valid base/ color variables found. Make sure your ''
                           @ ''base/ variables have both Light and Dark mode values and ''
                           @ ''properly resolve to color values.''))
                    else returns \<lparr>variables = processedVariables,
                                   collectionName = collection_name modeCollection\<rparr>))
       | _ \<Rightarrow>
           throws (Error (''Collection '' @ dq @ collection_name modeCollection @ dq
             @ '' must have both '' @ dq @ ''Light'' @ dq @ '' and '' @ dq @ ''Dark'' @ dq
             @ '' modes. Found modes: ''
             @ join_str '', '' (map mode_name (modes modeCollection)))))"

definition generateShadcnCSS :: "exportResult \<Rightarrow> string" where
  "generateShadcnCSS result =
     (let vars = variables result;
          css0 = ''@import '' @ dq @ ''tailwindcss'' @ dq @ '';'' @ nl
               @ ''@import '' @ dq @ ''tw-animate-css'' @ dq @ '';'' @ nl
               @ nl
               @ ''@custom-variant dark (&:is(.dark *));'' @ nl
               @ nl
               @ ''@theme inline {'' @ nl
               @ ''  --radius-sm: calc(var(--radius) - 4px);'' @ nl
               @ ''  --radius-md: calc(var(--radius) - 2px);'' @ nl
               @ ''  --radius-lg: var(--radius);'' @ nl
               @ ''  --radius-xl: calc(var(--radius) + 4px);'' @ nl;
          css1 = foldl (\<lambda>css v. css @ ''  --color-'' @ cleanName v @ '': var(--''
                          @ cleanName v @ '');'' @ nl) css0 vars;
          css2 = css1 @ ''}'' @ nl
               @ nl
               @ '':root {'' @ nl
               @ ''  --radius: 0.625rem;'' @ nl;
          css3 = foldl (\<lambda>css v. css @ ''  --'' @ cleanName v @ '': '' @ lightValue v
                          @ '';'' @ nl) css2 vars;
          css4 = css3 @ ''}'' @ nl
               @ nl
               @ ''.dark {'' @ nl;
          css5 = foldl (\<lambda>css v. css @ ''  --'' @ cleanName v @ '': '' @ darkValue v
                          @ '';'' @ nl) css4 vars
      in css5 @ ''}'' @ nl
         @ nl
         @ ''@layer base {'' @ nl
         @ ''  * {'' @ nl
         @ ''    @apply border-border outline-ring/50;'' @ nl
         @ ''  }'' @ nl
         @ ''  body {'' @ nl
         @ ''    @apply bg-background text-foreground;'' @ nl
         @ ''  }'' @ nl
         @ ''}'')"

text \<open>
  The messages \<open>main\<close> posts to the user interface, in order. The handler of a thrown
  error posts the error's message, or a fixed text when the message is empty.
\<close>

datatype ui_message =
    ExportComplete string nat string
  | ErrorMessage string

definition main :: "host \<Rightarrow> ui_message list" where
  "main h =
     (case snd (processSemanticVariables h) of
        Inr result \<Rightarrow>
          [ExportComplete (generateShadcnCSS result) (length (variables result))
             (collectionName result)]
      | Inl (Error msg) \<Rightarrow>
          [ErrorMessage (if msg \<noteq> [] then msg else ''Unknown error occurred'')])"

section \<open>Vocabulary of the statements\<close>

text \<open>
  The number of \<open>getVariableByIdAsync\<close> queries in a trace: one per recursive call of the
  resolver.
\<close>

definition variableLookups :: "host_call list \<Rightarrow> nat" where
  "variableLookups cs = length (filter (\<lambda>c. case c of GetVariableById _ \<Rightarrow> True | _ \<Rightarrow> False) cs)"

text \<open>
  The block of \<open>resolveVariableValue\<close> that chooses the mode of the aliased variable, as a
  term of its own (the function above contains it verbatim).
\<close>

definition targetModeOf :: "host \<Rightarrow> variable \<Rightarrow> string \<Rightarrow> variableCollection \<Rightarrow> string async" where
  "targetModeOf h v m ac =
     (case (find (\<lambda>m. toLowerCase (mode_name m) = ''light'') (modes ac),
            find (\<lambda>m. toLowerCase (mode_name m) = ''dark'') (modes ac)) of
        (Some lightMode, Some darkMode) \<Rightarrow>
          await (getVariableCollectionByIdAsync h (variableCollectionId v))
            (\<lambda>currentModeCollection.
              let currentMode =
                    (case currentModeCollection of
                       None \<Rightarrow> None
                     | Some c \<Rightarrow> find (\<lambda>x. modeId x = m) (modes c))
              in returns
                   (if map_option (\<lambda>m. toLowerCase (mode_name m)) currentMode = Some ''light''
                    then modeId lightMode
                    else if map_option (\<lambda>m. toLowerCase (mode_name m)) currentMode = Some ''dark''
                    then modeId darkMode
                    else m))
      | _ \<Rightarrow>
          (if length (modes ac) = 1 then returns (modeId (hd (modes ac)))
           else returns m))"



text \<open>The characters \<open>[A-Za-z0-9-]\<close>.\<close>

definition cssNameChar :: "char \<Rightarrow> bool" where
  "cssNameChar c =
     (c \<in> set ''ABCDEFGHIJKLMNOPQRSTUVWXYZabcdefghijklmnopqrstuvwxyz0123456789-'')"

section \<open>Example documents\<close>

definition variable_with ::
  "string \<Rightarrow> string \<Rightarrow> string \<Rightarrow> (string \<rightharpoonup> variableValue) \<Rightarrow> variable" where
  "variable_with i n c vals =
     \<lparr>variable_id = i, variable_name = n, variableCollectionId = c, resolvedType = COLOR,
      valuesByMode = vals\<rparr>"

definition collection_with :: "string \<Rightarrow> string \<Rightarrow> (string \<times> string) list \<Rightarrow> variableCollection" where
  "collection_with i n ms =
     \<lparr>collection_id = i, collection_name = n,
      modes = map (\<lambda>(mi, mn). \<lparr>modeId = mi, mode_name = mn\<rparr>) ms\<rparr>"

definition empty_host :: host where
  "empty_host = \<lparr>host_collections = [], host_variables = [], host_rejects = Map.empty\<rparr>"

text \<open>
  A document with a semantic collection \<open>Mode\<close>, a collection \<open>Theme\<close> whose modes carry
  the same names under other identifiers and in the other order, and a single-mode
  collection \<open>Constants\<close>.
\<close>

definition background :: variable where
  "background = variable_with ''V:1'' ''base/background'' ''C:1''
     [''1:0'' \<mapsto> VariableAlias ''V:2'', ''1:1'' \<mapsto> VariableAlias ''V:2'']"

definition surface :: variable where
  "surface = variable_with ''V:2'' ''theme/surface'' ''C:2''
     [''2:0'' \<mapsto> RGB 0 0 0, ''2:1'' \<mapsto> RGB 1 1 1]"

definition brand :: variable where
  "brand = variable_with ''V:3'' ''base/brand'' ''C:1''
     [''1:0'' \<mapsto> VariableAlias ''V:4'', ''1:1'' \<mapsto> VariableAlias ''V:4'']"

definition brand_constant :: variable where
  "brand_constant = variable_with ''V:4'' ''constants/brand'' ''C:3''
     [''3:0'' \<mapsto> RGB 0 0 0]"

definition broken :: variable where
  "broken = variable_with ''V:5'' ''base/broken'' ''C:1'' [''1:0'' \<mapsto> RGB 0 0 0]"

definition theme_host :: host where
  "theme_host =
     \<lparr>host_collections =
        [collection_with ''C:1'' ''Mode'' [(''1:0'', ''Light''), (''1:1'', ''Dark'')],
         collection_with ''C:2'' ''Theme'' [(''2:0'', ''Dark''), (''2:1'', ''Light'')],
         collection_with ''C:3'' ''Constants'' [(''3:0'', ''Value'')]],
      host_variables = [background, surface, brand, brand_constant, broken],
      host_rejects = Map.empty\<rparr>"

text \<open>
  Two variables of one collection that alias each other in the dark mode only, and hold
  colours in the light mode.
\<close>

definition ping :: variable where
  "ping = variable_with ''V:A'' ''base/ping'' ''C:1''
     [''1:0'' \<mapsto> RGB 1 1 1, ''1:1'' \<mapsto> VariableAlias ''V:B'']"

definition pong :: variable where
  "pong = variable_with ''V:B'' ''base/pong'' ''C:1''
     [''1:0'' \<mapsto> RGB 0 0 0, ''1:1'' \<mapsto> VariableAlias ''V:A'']"

definition cycle_host :: host where
  "cycle_host =
     \<lparr>host_collections = [collection_with ''C:1'' ''Mode'' [(''1:0'', ''Light''), (''1:1'', ''Dark'')]],
      host_variables = [ping, pong],
      host_rejects = Map.empty\<rparr>"

text \<open>
  A collection with a third mode whose name differs from the first only in letter case;
  two variables alias each other in that third mode and hold colours in the first.
\<close>

definition third_ping :: variable where
  "third_ping = variable_with ''V:A'' ''base/ping'' ''C:1''
     [''1:0'' \<mapsto> RGB 0 0 0, ''1:2'' \<mapsto> VariableAlias ''V:B'']"

definition third_pong :: variable where
  "third_pong = variable_with ''V:B'' ''base/pong'' ''C:1''
     [''1:0'' \<mapsto> RGB 0 0 0, ''1:2'' \<mapsto> VariableAlias ''V:A'']"

definition third_mode_host :: host where
  "third_mode_host =
     \<lparr>host_collections =
        [collection_with ''C:1'' ''Mode''
           [(''1:0'', ''Light''), (''1:1'', ''Dark''), (''1:2'', ''light'')]],
      host_variables = [third_ping, third_pong],
      host_rejects = Map.empty\<rparr>"

text \<open>Variable names with a space and with a nested path.\<close>

definition my_color :: variable where
  "my_color = variable_with ''V:1'' ''base/my color'' ''C:1''
     [''1:0'' \<mapsto> RGB 0 0 0, ''1:1'' \<mapsto> RGB 0 0 0]"

definition card_foreground :: variable where
  "card_foreground = variable_with ''V:2'' ''base/card/foreground'' ''C:1''
     [''1:0'' \<mapsto> RGB 0 0 0, ''1:1'' \<mapsto> RGB 0 0 0]"

definition spaced_host :: host where
  "spaced_host =
     \<lparr>host_collections = [collection_with ''C:1'' ''Mode'' [(''1:0'', ''Light''), (''1:1'', ''Dark'')]],
      host_variables = [my_color, card_foreground],
      host_rejects = Map.empty\<rparr>"

text \<open>
  A host that rejects the enumeration of collections with an error without a message, and a
  document without a semantic collection whose variables cannot be read.
\<close>

definition silent_host :: host where
  "silent_host =
     \<lparr>host_collections = [], host_variables = [],
      host_rejects = [GetLocalVariableCollections \<mapsto> Error []]\<rparr>"

definition offline_host :: host where
  "offline_host =
     \<lparr>host_collections = [], host_variables = [],
      host_rejects = [GetLocalVariableCollections \<mapsto> Error ''Network unavailable'']\<rparr>"

definition themes_only_host :: host where
  "themes_only_host =
     \<lparr>host_collections =
        [collection_with ''C:2'' ''Theme'' [(''2:0'', ''Dark''), (''2:1'', ''Light'')],
         collection_with ''C:3'' ''Constants'' [(''3:0'', ''Value'')]],
      host_variables = [surface, brand_constant],
      host_rejects = [GetLocalVariables \<mapsto> Error ''variables unavailable'']\<rparr>"

section \<open>Basic facts\<close>

declare decimalDigits.simps [simp del] hexDigits.simps [simp del] numberToString.simps(2) [simp del]

lemmas example_defs = theme_host_def background_def surface_def brand_def brand_constant_def
  broken_def variable_with_def collection_with_def

lemmas host_query_defs = getLocalVariableCollectionsAsync_def getLocalVariablesAsync_def
  getVariableByIdAsync_def getVariableCollectionByIdAsync_def query_def await_def returns_def
  throws_def

subsection \<open>Asynchronous computations\<close>

lemma snd_await: "snd (await m f) = (case snd m of Inl e \<Rightarrow> Inl e | Inr x \<Rightarrow> snd (f x))"
  by (simp add: await_def split: prod.splits sum.splits)

lemma fst_await: "fst (await m f) = (case snd m of Inl e \<Rightarrow> fst m | Inr x \<Rightarrow> fst m @ fst (f x))"
  by (simp add: await_def split: prod.splits sum.splits)

lemma await_returns: "await (cs, Inr x) f = (cs @ fst (f x), snd (f x))"
  by (simp add: await_def split: prod.splits)

lemma await_throws: "await (cs, Inl e) f = (cs, Inl e)"
  by (simp add: await_def)

subsection \<open>Strings and numbers\<close>

lemma isHexDigit_not_space: "isHexDigit c \<Longrightarrow> \<not> isWhiteSpace c"
  by (auto simp: isHexDigit_def hexDigitValue_def isWhiteSpace_def Let_def split: if_splits)

lemma isHexDigit_not_sign:
  "isHexDigit c \<Longrightarrow> c \<noteq> CHR ''-'' \<and> c \<noteq> CHR ''+'' \<and> c \<noteq> CHR ''x'' \<and> c \<noteq> CHR ''X''"
  by (auto simp: isHexDigit_def hexDigitValue_def Let_def split: if_splits)

lemma isHexDigit_0: "isHexDigit (CHR ''0'')" "hexDigitValue (CHR ''0'') = Some 0"
  by (simp_all add: isHexDigit_def hexDigitValue_def)

lemma parseInt16_empty: "parseInt16 [] = NaN"
  by (simp add: parseInt16_def)

lemma parseInt16_digit:
  assumes "isHexDigit e"
  shows "parseInt16 [e] = Fin (real (the (hexDigitValue e)))"
  using assms isHexDigit_not_space[OF assms] isHexDigit_not_sign[OF assms]
  by (simp add: parseInt16_def)

lemma parseInt16_zero_digit:
  assumes "isHexDigit e"
  shows "parseInt16 [CHR ''0'', e] = Fin (real (the (hexDigitValue e)))"
  using assms isHexDigit_not_space[OF isHexDigit_0(1)] isHexDigit_not_sign[OF isHexDigit_0(1)]
    isHexDigit_not_sign[OF assms] isHexDigit_0
  by (simp add: parseInt16_def)

lemma parseInt16_two_digits:
  assumes "isHexDigit x" and "isHexDigit y"
  shows "parseInt16 [x, y] = Fin (real (16 * the (hexDigitValue x) + the (hexDigitValue y)))"
  using assms isHexDigit_not_space[OF assms(1)] isHexDigit_not_sign[OF assms(1)]
    isHexDigit_not_sign[OF assms(2)]
  by (simp add: parseInt16_def)

lemma parseInt16_00: "parseInt16 ''00'' = Fin 0"
  using parseInt16_zero_digit[OF isHexDigit_0(1)] by (simp add: isHexDigit_0)

lemma decimalDigits_small: "n < 10 \<Longrightarrow> decimalDigits n = [digitChar n]"
  by (subst decimalDigits.simps) simp

lemma padDigits3:
  "padDigits 3 f
     = [digitChar (f div 10 div 10 mod 10), digitChar (f div 10 mod 10), digitChar (f mod 10)]"
  by (simp add: numeral_3_eq_3)

lemma decimalDigits_0: "decimalDigits 0 = ''0''"
  by (simp add: decimalDigits_small digitChar_def)

lemma fraction_0: "stripTrailingZeros (padDigits 3 0) = []"
  by (simp add: padDigits3 digitChar_def stripTrailingZeros_def)

lemma numberToString_0: "numberToString (Fin 0) = ''0''"
  by (simp add: numberToString.simps(2) Let_def decimalDigits_0 fraction_0)

lemma numberToString_examples:
  "numberToString (Fin (108 / 1000)) = ''0.108''"
  "numberToString (Fin (4 / 1000)) = ''0.004''"
  by (simp_all add: numberToString.simps(2) Let_def decimalDigits_0 padDigits3 digitChar_def
        stripTrailingZeros_def)

lemma hexFormat_digits:
  "list_all isHexDigit ds \<Longrightarrow> 3 \<le> length ds \<Longrightarrow> length ds \<le> 6 \<Longrightarrow> hexFormat (CHR ''#'' # ds)"
  by (simp add: hexFormat_def)

lemma hexFormat_examples: "hexFormat ''#000000''" "hexFormat ''#fff''"
  by (simp_all add: hexFormat_def isHexDigit_def hexDigitValue_def)

lemma lower_examples:
  "toLowerCase ''Light'' = ''light''" "toLowerCase ''Dark'' = ''dark''"
  "toLowerCase ''Value'' = ''value''"
  by (simp_all add: toLowerCase_def lowerChar_def)

lemma startsWith_base:
  assumes "startsWith s ''base/''"
  shows "s = ''base/'' @ drop 5 s"
proof -
  have len: "length ''base/'' = 5" by simp
  from assms have "take 5 s = ''base/''" unfolding startsWith_def len .
  then have "take 5 s @ drop 5 s = ''base/'' @ drop 5 s" by (rule arg_cong)
  then show ?thesis by (simp only: append_take_drop_id)
qed

lemma replaceSlashes_no_slash: "CHR ''/'' \<notin> set (replaceSlashes s)"
  by (auto simp: replaceSlashes_def)

lemma replaceSlashes_cssNameChar:
  "list_all (\<lambda>c. cssNameChar c \<or> c = CHR ''/'') s \<Longrightarrow> list_all cssNameChar (replaceSlashes s)"
  by (induction s) (auto simp: replaceSlashes_def cssNameChar_def)

lemma hexDigits_small: "n < 16 \<Longrightarrow> hexDigits n = [digitChar n]"
  by (subst hexDigits.simps) simp

lemma intToString16_examples: "intToString16 0 = ''0''" "intToString16 255 = ''ff''"
proof -
  show "intToString16 0 = ''0''"
    by (simp add: intToString16_def hexDigits_small digitChar_def)
  have "hexDigits 255 = hexDigits 15 @ [digitChar 15]"
    by (subst hexDigits.simps) simp
  then show "intToString16 255 = ''ff''"
    by (simp add: intToString16_def hexDigits_small digitChar_def)
qed

lemma figmaRgbToHex_examples:
  "figmaRgbToHex 0 0 0 = ''#000000''" "figmaRgbToHex 1 1 1 = ''#ffffff''"
  by (simp_all add: figmaRgbToHex_def Math_round_def intToString16_examples)

subsection \<open>The converter\<close>

lemma gammaToLinear_Fin:
  "gammaToLinear (Fin v) = Fin (if v \<le> 0.04045 then v / 12.92 else ((v + 0.055) / 1.055) powr 2.4)"
  by (simp add: gammaToLinear_def)

lemma rgbToOklch_NaN: "rgbToOklch r g NaN = (NaN, NaN, NaN)"
  by (simp add: rgbToOklch_def gammaToLinear_def xyzToOklab_def Let_def)

lemma rgbToOklch_black: "rgbToOklch (Fin 0) (Fin 0) (Fin 0) = (Fin 0, Fin 0, Fin 0)"
  by (simp add: rgbToOklch_def gammaToLinear_def xyzToOklab_def atan2_def Let_def)

lemma hexToOklch_four: "hexToOklch [CHR ''#'', c1, c2, c3, c4] = ''oklch(NaN NaN NaN)''"
  by (simp add: hexToOklch_def slice_def parseInt16_empty rgbToOklch_NaN Let_def)

lemma hexToOklch_five:
  assumes "isHexDigit c5"
  shows "hexToOklch [CHR ''#'', c1, c2, c3, c4, c5]
       = hexToOklch [CHR ''#'', c1, c2, c3, c4, CHR ''0'', c5]"
  by (simp add: hexToOklch_def slice_def parseInt16_digit[OF assms] parseInt16_zero_digit[OF assms])

lemma hexToOklch_black: "hexToOklch ''#000000'' = ''oklch(0 0 0)''"
  by (simp add: hexToOklch_def slice_def parseInt16_00 rgbToOklch_black numberToString_0 Let_def)


lemma hexToOklch_oklchOfHex:
  "hexToOklch hex0 =
     (case oklchOfHex hex0 of
        (oL, oC, oH) \<Rightarrow>
          if jlt (toFixedNumber oC 3) (Fin 0.004)
          then ''oklch('' @ numberToString (toFixedNumber oL 3) @ '' 0 0)''
          else ''oklch('' @ numberToString (toFixedNumber oL 3) @ '' ''
               @ numberToString (toFixedNumber oC 3) @ '' ''
               @ numberToString (toFixedNumber oH 1) @ '')'')"
  by (simp add: hexToOklch_def oklchOfHex_def hexChannels_def Let_def split: prod.splits)

lemma oklchOfHex_black: "oklchOfHex ''#000000'' = (Fin 0, Fin 0, Fin 0)"
  by (simp add: oklchOfHex_def hexChannels_def slice_def parseInt16_00 rgbToOklch_black Let_def)

text \<open>Rounding to three decimals, at the achromatic threshold and at a known interval.\<close>

lemma neg_thousandths:
  assumes "0 \<le> (n::int)"
  shows "real_of_int (- n) / 1000 < 0.004"
proof -
  from assms have "real_of_int (- n) \<le> 0" by simp
  then have "real_of_int (- n) / 1000 \<le> 0 / 1000" by (rule divide_right_mono) simp
  then have "real_of_int (- n) / 1000 \<le> 0" by simp
  also have "(0::real) < 0.004" by simp
  finally show ?thesis .
qed

lemma small_thousandths:
  assumes "(n::int) \<le> 3"
  shows "real_of_int n / 1000 < 0.004"
proof -
  from assms have "real_of_int n \<le> 3" by simp
  then have "real_of_int n / 1000 \<le> 3 / 1000" by (rule divide_right_mono) simp
  also have "(3 / 1000 :: real) < 0.004" by simp
  finally show ?thesis .
qed

lemma toFixed3_below:
  assumes "c < 0.0035"
  shows "jlt (toFixedNumber (Fin c) 3) (Fin 0.004)"
proof (cases "c < 0")
  case True
  then have "0 \<le> - c * 1000 + 1 / 2" by simp
  then have "0 \<le> \<lfloor>- c * 1000 + 1 / 2\<rfloor>" by simp
  then have "real_of_int (- \<lfloor>- c * 1000 + 1 / 2\<rfloor>) / 1000 < 0.004"
    by (rule neg_thousandths)
  with True show ?thesis by simp
next
  case False
  from assms have "c * 1000 + 1 / 2 < 4" by simp
  then have "\<lfloor>c * 1000 + 1 / 2\<rfloor> < 4" by (simp add: floor_less_iff)
  then have "\<lfloor>c * 1000 + 1 / 2\<rfloor> \<le> 3" by simp
  then have "real_of_int \<lfloor>c * 1000 + 1 / 2\<rfloor> / 1000 < 0.004"
    by (rule small_thousandths)
  with False show ?thesis by simp
qed

lemma toFixed3_above:
  assumes "0.0035 \<le> c"
  shows "\<not> jlt (toFixedNumber (Fin c) 3) (Fin 0.004)"
proof -
  from assms have "4 \<le> c * 1000 + 1 / 2" by simp
  then have "4 \<le> \<lfloor>c * 1000 + 1 / 2\<rfloor>" by (simp add: le_floor_iff)
  then have "4 \<le> real_of_int \<lfloor>c * 1000 + 1 / 2\<rfloor>" by linarith
  then have "0.004 \<le> real_of_int \<lfloor>c * 1000 + 1 / 2\<rfloor> / 1000" by simp
  moreover from assms have "\<not> c < 0" by simp
  ultimately show ?thesis by simp
qed

lemma toFixed3_value:
  assumes "real_of_int n \<le> x * 1000 + 1 / 2" and "x * 1000 + 1 / 2 < real_of_int n + 1" and "0 \<le> x"
  shows "toFixedNumber (Fin x) 3 = Fin (real_of_int n / 1000)"
proof -
  from assms(1,2) have "\<lfloor>x * 1000 + 1 / 2\<rfloor> = n" by (rule floor_unique)
  with assms(3) show ?thesis by simp
qed

subsection \<open>One call of the resolver\<close>

lemma variableLookups_simps [simp]:
  "variableLookups [] = 0"
  "variableLookups (GetVariableById i # cs) = Suc (variableLookups cs)"
  "variableLookups (GetVariableCollectionById j # cs) = variableLookups cs"
  "variableLookups (cs @ cs') = variableLookups cs + variableLookups cs'"
  by (simp_all add: variableLookups_def)

lemma find_mem: "find P xs = Some x \<Longrightarrow> x \<in> set xs"
  by (induction xs) (auto split: if_splits)

lemma resolve_visited:
  "variable_id v \<in> visited \<Longrightarrow> resolveVariableValue h v m visited = returns None"
  by (subst resolveVariableValue.simps) simp

lemma resolve_string:
  assumes "variable_id v \<notin> visited" and "valuesByMode v m = Some (StringValue s)" and "hexFormat s"
  shows "resolveVariableValue h v m visited = returns (Some (hexToOklch s))"
proof -
  from assms(3) have "s \<noteq> []" by (auto simp: hexFormat_def)
  with assms show ?thesis by (subst resolveVariableValue.simps) simp
qed

lemma targetModeOf_lookups: "variableLookups (fst (targetModeOf h v m ac)) = 0"
  by (auto simp: targetModeOf_def fst_await returns_def getVariableCollectionByIdAsync_def query_def
        Let_def split: option.splits sum.splits)

lemma targetModeOf_range:
  assumes "host_rejects h = Map.empty"
  shows "\<exists>cs t. targetModeOf h v m ac = (cs, Inr t) \<and> variableLookups cs = 0
            \<and> (t = m \<or> t \<in> modeId ` set (modes ac))"
proof (cases "find (\<lambda>m. toLowerCase (mode_name m) = ''light'') (modes ac)")
  case None
  then show ?thesis
    by (cases "modes ac") (auto simp: targetModeOf_def returns_def)
next
  case lm: (Some lightMode)
  show ?thesis
  proof (cases "find (\<lambda>m. toLowerCase (mode_name m) = ''dark'') (modes ac)")
    case None
    with lm show ?thesis
      by (cases "modes ac") (auto simp: targetModeOf_def returns_def)
  next
    case dm: (Some darkMode)
    from lm dm have "lightMode \<in> set (modes ac)" "darkMode \<in> set (modes ac)"
      by (auto dest: find_mem)
    with lm dm assms show ?thesis
      by (auto simp: targetModeOf_def returns_def await_def getVariableCollectionByIdAsync_def
            query_def Let_def)
  qed
qed

lemma resolve_unfold_alias:
  assumes "variable_id v \<notin> visited" and "valuesByMode v m = Some (VariableAlias i)"
  shows "resolveVariableValue h v m visited =
     await (getVariableByIdAsync h i) (\<lambda>aliasedVariable.
       case aliasedVariable of
         None \<Rightarrow> returns None
       | Some aliased \<Rightarrow>
           await (getVariableCollectionByIdAsync h (variableCollectionId aliased))
             (\<lambda>aliasedCollection.
               case aliasedCollection of
                 None \<Rightarrow> returns None
               | Some ac \<Rightarrow>
                   await (targetModeOf h v m ac)
                     (\<lambda>t. resolveVariableValue h aliased t (insert (variable_id v) visited))))"
  using assms by (subst resolveVariableValue.simps) (simp add: targetModeOf_def)

lemma resolve_alias_found:
  assumes "variable_id v \<notin> visited"
    and "valuesByMode v m = Some (VariableAlias i)"
    and "host_rejects h (GetVariableById i) = None"
    and "find (\<lambda>x. variable_id x = i) (host_variables h) = Some w"
    and "host_rejects h (GetVariableCollectionById (variableCollectionId w)) = None"
    and "find (\<lambda>c. collection_id c = variableCollectionId w) (host_collections h) = Some ac"
  shows "resolveVariableValue h v m visited =
     await ([GetVariableById i, GetVariableCollectionById (variableCollectionId w)], Inr ac) (\<lambda>ac.
       await
         (case (find (\<lambda>m. toLowerCase (mode_name m) = ''light'') (modes ac),
                find (\<lambda>m. toLowerCase (mode_name m) = ''dark'') (modes ac)) of
            (Some lightMode, Some darkMode) \<Rightarrow>
              await (getVariableCollectionByIdAsync h (variableCollectionId v))
                (\<lambda>currentModeCollection.
                  let currentMode =
                        (case currentModeCollection of
                           None \<Rightarrow> None
                         | Some c \<Rightarrow> find (\<lambda>x. modeId x = m) (modes c))
                  in returns
                       (if map_option (\<lambda>m. toLowerCase (mode_name m)) currentMode = Some ''light''
                        then modeId lightMode
                        else if map_option (\<lambda>m. toLowerCase (mode_name m)) currentMode = Some ''dark''
                        then modeId darkMode
                        else m))
          | _ \<Rightarrow>
              (if length (modes ac) = 1 then returns (modeId (hd (modes ac)))
               else returns m))
         (\<lambda>targetModeId.
            resolveVariableValue h w targetModeId (insert (variable_id v) visited)))"
  using assms
  by (subst resolveVariableValue.simps)
     (simp add: getVariableByIdAsync_def getVariableCollectionByIdAsync_def query_def await_def
        split: prod.splits sum.splits)

lemma resolve_alias_norej:
  assumes "variable_id v \<notin> visited"
    and "valuesByMode v m = Some (VariableAlias i)"
    and "host_rejects h = Map.empty"
    and "find (\<lambda>x. variable_id x = i) (host_variables h) = Some w"
    and "find (\<lambda>c. collection_id c = variableCollectionId w) (host_collections h) = Some ac"
  shows "\<exists>cs t. (t = m \<or> t \<in> modeId ` set (modes ac)) \<and> variableLookups cs = 1
          \<and> resolveVariableValue h v m visited
               = (cs @ fst (resolveVariableValue h w t (insert (variable_id v) visited)),
                  snd (resolveVariableValue h w t (insert (variable_id v) visited)))"
proof -
  from targetModeOf_range[OF assms(3), of v m ac] obtain cs3 t
    where q3: "targetModeOf h v m ac = (cs3, Inr t)" and cs3: "variableLookups cs3 = 0"
      and t: "t = m \<or> t \<in> modeId ` set (modes ac)" by blast
  have "resolveVariableValue h v m visited
      = (([GetVariableById i, GetVariableCollectionById (variableCollectionId w)] @ cs3)
           @ fst (resolveVariableValue h w t (insert (variable_id v) visited)),
         snd (resolveVariableValue h w t (insert (variable_id v) visited)))"
    unfolding resolve_unfold_alias[OF assms(1,2)]
    using assms(3,4,5) q3
    by (simp add: getVariableByIdAsync_def getVariableCollectionByIdAsync_def query_def await_returns)
  moreover have "variableLookups ([GetVariableById i,
      GetVariableCollectionById (variableCollectionId w)] @ cs3) = 1"
    using cs3 by simp
  ultimately show ?thesis using t by blast
qed

lemma resolve_no_recursion:
  assumes "variable_id v \<in> visited \<or> (\<forall>i. valuesByMode v m \<noteq> Some (VariableAlias i))"
  shows "fst (resolveVariableValue h v m visited) = []"
  using assms
  by (subst resolveVariableValue.simps)
     (auto simp: returns_def split: option.splits variableValue.splits)


text \<open>
  A call either ends without recursion, or continues as a call on a stored variable with the
  caller added to \<open>visited\<close>; in the traces and in the outcomes.
\<close>

lemma resolve_step:
  "variableLookups (fst (resolveVariableValue h v m visited)) \<le> 1
   \<or> (\<exists>w t cs. variable_id v \<notin> visited \<and> w \<in> set (host_variables h) \<and> variableLookups cs = 1
        \<and> resolveVariableValue h v m visited
            = (cs @ fst (resolveVariableValue h w t (insert (variable_id v) visited)),
               snd (resolveVariableValue h w t (insert (variable_id v) visited))))"
proof (cases "variable_id v \<in> visited \<or> (\<forall>i. valuesByMode v m \<noteq> Some (VariableAlias i))")
  case True
  then show ?thesis by (simp add: resolve_no_recursion)
next
  case False
  then obtain i where fresh: "variable_id v \<notin> visited"
    and al: "valuesByMode v m = Some (VariableAlias i)" by blast
  note eq = resolve_unfold_alias[OF fresh al, of h]
  show ?thesis
  proof (cases "getVariableByIdAsync h i")
    case (Pair cs1 r1)
    then have cs1: "cs1 = [GetVariableById i]"
      by (simp add: getVariableByIdAsync_def query_def)
    show ?thesis
    proof (cases r1)
      case (Inl e)
      with Pair cs1 eq show ?thesis by (simp add: await_throws)
    next
      case (Inr wo)
      show ?thesis
      proof (cases wo)
        case None
        with Pair cs1 eq Inr show ?thesis by (simp add: await_returns returns_def)
      next
        case (Some w)
        with Pair Inr have win: "w \<in> set (host_variables h)"
          using getVariableByIdAsync_Some by blast
        obtain cs2 r2 where q2: "getVariableCollectionByIdAsync h (variableCollectionId w) = (cs2, r2)"
          by (cases "getVariableCollectionByIdAsync h (variableCollectionId w)")
        then have cs2: "cs2 = [GetVariableCollectionById (variableCollectionId w)]"
          by (simp add: getVariableCollectionByIdAsync_def query_def)
        show ?thesis
        proof (cases r2)
          case (Inl e)
          with Pair cs1 eq Inr Some q2 cs2 show ?thesis by (simp add: await_returns await_throws)
        next
          case r2: (Inr aco)
          show ?thesis
          proof (cases aco)
            case None
            with Pair cs1 eq Inr Some q2 cs2 r2 show ?thesis
              by (simp add: await_returns returns_def)
          next
            case ac: (Some ac)
            obtain cs3 r3 where q3: "targetModeOf h v m ac = (cs3, r3)"
              by (cases "targetModeOf h v m ac")
            then have cs3: "variableLookups cs3 = 0"
              using targetModeOf_lookups[of h v m ac] by simp
            show ?thesis
            proof (cases r3)
              case (Inl e)
              with Pair cs1 eq Inr Some q2 cs2 r2 ac q3 cs3 show ?thesis
                by (simp add: await_returns await_throws)
            next
              case t: (Inr t)
              have "resolveVariableValue h v m visited
                  = ((cs1 @ cs2 @ cs3) @ fst (resolveVariableValue h w t (insert (variable_id v) visited)),
                     snd (resolveVariableValue h w t (insert (variable_id v) visited)))"
                using Pair eq Inr Some q2 r2 ac q3 t by (simp add: await_returns)
              moreover have "variableLookups (cs1 @ cs2 @ cs3) = 1"
                using cs1 cs2 cs3 by simp
              ultimately show ?thesis using fresh win by blast
            qed
          qed
        qed
      qed
    qed
  qed
qed


subsection \<open>The whole recursion\<close>

lemma resolve_lookups_measure:
  "variableLookups (fst (resolveVariableValue h v m visited))
     \<le> (if variable_id v \<in> visited then 0
        else Suc (card (variable_id ` set (host_variables h) - insert (variable_id v) visited)))"
proof (induction "if variable_id v \<in> visited then 0
        else Suc (card (variable_id ` set (host_variables h) - insert (variable_id v) visited))"
      arbitrary: v m visited rule: less_induct)
  case less
  show ?case
  proof (cases "variable_id v \<in> visited")
    case True
    then show ?thesis by (simp add: resolve_visited returns_def)
  next
    case False
    from resolve_step[of h v m visited] show ?thesis
    proof
      assume "variableLookups (fst (resolveVariableValue h v m visited)) \<le> 1"
      with False show ?thesis by simp
    next
      assume "\<exists>w t cs. variable_id v \<notin> visited \<and> w \<in> set (host_variables h)
          \<and> variableLookups cs = 1
          \<and> resolveVariableValue h v m visited
              = (cs @ fst (resolveVariableValue h w t (insert (variable_id v) visited)),
                 snd (resolveVariableValue h w t (insert (variable_id v) visited)))"
      then obtain w t cs where win: "w \<in> set (host_variables h)" and cs: "variableLookups cs = 1"
        and eq: "resolveVariableValue h v m visited
              = (cs @ fst (resolveVariableValue h w t (insert (variable_id v) visited)),
                 snd (resolveVariableValue h w t (insert (variable_id v) visited)))"
        by blast
      let ?mu = "\<lambda>v visited. if variable_id v \<in> visited then 0
        else Suc (card (variable_id ` set (host_variables h) - insert (variable_id v) visited))"
      have dec: "?mu w (insert (variable_id v) visited) < ?mu v visited"
        using resolve_measure_decreases[OF False win, of t m] by simp
      have "variableLookups (fst (resolveVariableValue h w t (insert (variable_id v) visited)))
              \<le> ?mu w (insert (variable_id v) visited)"
        using dec by (intro less) simp
      with dec have "Suc (variableLookups (fst (resolveVariableValue h w t (insert (variable_id v) visited))))
              \<le> ?mu v visited" by linarith
      then show ?thesis using eq cs by simp
    qed
  qed
qed

lemma resolve_lookups_bound:
  "variableLookups (fst (resolveVariableValue h v m visited))
     \<le> Suc (card (variable_id ` set (host_variables h) - visited))"
proof -
  have "card (variable_id ` set (host_variables h) - insert (variable_id v) visited)
          \<le> card (variable_id ` set (host_variables h) - visited)"
    by (rule card_mono) auto
  with resolve_lookups_measure[of h v m visited] show ?thesis
    by (simp split: if_splits)
qed



lemma resolve_alias_target:
  assumes "variable_id v \<notin> visited"
    and "valuesByMode v m = Some (VariableAlias i)"
    and "host_rejects h = Map.empty"
    and "find (\<lambda>x. variable_id x = i) (host_variables h) = Some w"
    and "find (\<lambda>c. collection_id c = variableCollectionId w) (host_collections h) = Some ac"
    and "snd (targetModeOf h v m ac) = Inr t"
  shows "snd (resolveVariableValue h v m visited)
           = snd (resolveVariableValue h w t (insert (variable_id v) visited))
       \<and> variableLookups (fst (resolveVariableValue h v m visited))
           = Suc (variableLookups (fst (resolveVariableValue h w t (insert (variable_id v) visited))))"
proof -
  have "resolveVariableValue h v m visited
      = (([GetVariableById i, GetVariableCollectionById (variableCollectionId w)]
            @ fst (targetModeOf h v m ac))
           @ fst (resolveVariableValue h w t (insert (variable_id v) visited)),
         snd (resolveVariableValue h w t (insert (variable_id v) visited)))"
    unfolding resolve_unfold_alias[OF assms(1,2)]
    using assms(3,4,5)
    by (simp add: getVariableByIdAsync_def getVariableCollectionByIdAsync_def query_def
          await_returns fst_await snd_await assms(6))
  then show ?thesis by (simp add: targetModeOf_lookups)
qed


lemma resolve_alias_back:
  assumes "variable_id v \<notin> visited"
    and "valuesByMode v m = Some (VariableAlias i)"
    and "host_rejects h = Map.empty"
    and "find (\<lambda>x. variable_id x = i) (host_variables h) = Some w"
    and "i \<in> visited"
  shows "snd (resolveVariableValue h v m visited) = Inr None
       \<and> variableLookups (fst (resolveVariableValue h v m visited)) = 1"
proof (cases "find (\<lambda>c. collection_id c = variableCollectionId w) (host_collections h)")
  case None
  have "resolveVariableValue h v m visited
      = ([GetVariableById i, GetVariableCollectionById (variableCollectionId w)], Inr None)"
    unfolding resolve_unfold_alias[OF assms(1,2)]
    using assms(3,4) None
    by (simp add: getVariableByIdAsync_def getVariableCollectionByIdAsync_def query_def
          await_returns returns_def)
  then show ?thesis by simp
next
  case (Some ac)
  from targetModeOf_range[OF assms(3), of v m ac] obtain cs t
    where "targetModeOf h v m ac = (cs, Inr t)" by blast
  then have tg: "snd (targetModeOf h v m ac) = Inr t" by simp
  from assms(4) have "variable_id w = i" by (auto dest: find_variable_id)
  with assms(5) have "variable_id w \<in> insert (variable_id v) visited" by simp
  then have "resolveVariableValue h w t (insert (variable_id v) visited) = returns None"
    by (rule resolve_visited)
  with resolve_alias_target[OF assms(1-4) Some tg] show ?thesis by (simp add: returns_def)
qed


lemma two_node_cycle_null:
  assumes norej: "host_rejects h = Map.empty"
    and fa: "find (\<lambda>x. variable_id x = variable_id a) (host_variables h) = Some a"
    and fb: "find (\<lambda>x. variable_id x = variable_id b) (host_variables h) = Some b"
    and ne: "variable_id a \<noteq> variable_id b"
    and ab: "valuesByMode a m = Some (VariableAlias (variable_id b))"
    and cb: "find (\<lambda>x. collection_id x = variableCollectionId b) (host_collections h) = Some c"
    and tg: "snd (targetModeOf h a m c) = Inr t"
    and ba: "valuesByMode b t = Some (VariableAlias (variable_id a))"
  shows "snd (resolveVariableValue h a m {}) = Inr None
       \<and> variableLookups (fst (resolveVariableValue h a m {})) = 2"
proof -
  have fresh1: "variable_id a \<notin> {}" by simp
  note step1 = resolve_alias_target[OF fresh1 ab norej fb cb tg]
  from ne have fresh2: "variable_id b \<notin> insert (variable_id a) {}" by simp
  have "variable_id a \<in> insert (variable_id a) {}" by simp
  note step2 = resolve_alias_back[OF fresh2 ba norej fa this]
  from step1 step2 show ?thesis by simp
qed

subsection \<open>The loop over the candidates\<close>


lemma processVariables_entries:
  "snd (processVariables h lightMode darkMode vs acc) = Inr out \<Longrightarrow> e \<in> set out \<Longrightarrow>
     e \<in> set acc \<or> (\<exists>v\<in>set vs. name e = variable_name v
                        \<and> cleanName e = replaceSlashes (drop 5 (variable_name v)))"
proof (induction vs arbitrary: acc)
  case Nil
  then show ?case by (simp add: returns_def)
next
  case (Cons v vs)
  from Cons.prems(1) obtain acc' where
    rest: "snd (processVariables h lightMode darkMode vs acc') = Inr out"
    and acc': "acc' = acc \<or> (\<exists>l d. acc' = acc @ [\<lparr>name = variable_name v,
                  cleanName = replaceSlashes (drop 5 (variable_name v)),
                  lightValue = l, darkValue = d\<rparr>])"
    by (auto simp: snd_await Let_def split: sum.splits if_splits)
  from Cons.IH[OF rest Cons.prems(2)] acc' show ?case by auto
qed

lemma processSemanticVariables_entries:
  assumes "snd (processSemanticVariables h) = Inr result" and "e \<in> set (variables result)"
  shows "\<exists>v::variable. startsWith (variable_name v) ''base/'' \<and> name e = variable_name v
            \<and> cleanName e = replaceSlashes (drop 5 (variable_name v))"
proof -
  from assms(1) obtain lightMode darkMode vs out where
    loop: "snd (processVariables h lightMode darkMode vs []) = Inr out"
    and base: "\<forall>v\<in>set vs. startsWith (variable_name v) ''base/''"
    and out: "variables result = out"
  proof (cases "snd (findModeCollection h)")
    case (Inl e)
    with assms(1) show ?thesis by (simp add: processSemanticVariables_def snd_await)
  next
    case (Inr mc)
    with assms(1) obtain lightMode darkMode allVariables where
      lm: "find (\<lambda>m. toLowerCase (mode_name m) = ''light'') (modes mc) = Some lightMode"
      and dm: "find (\<lambda>m. toLowerCase (mode_name m) = ''dark'') (modes mc) = Some darkMode"
      and av: "snd (getLocalVariablesAsync h COLOR) = Inr allVariables"
      by (auto simp: processSemanticVariables_def snd_await throws_def
            split: option.splits sum.splits)
    let ?vs = "filter (\<lambda>v. startsWith (variable_name v) ''base/'')
                 (filter (\<lambda>v. variableCollectionId v = collection_id mc) allVariables)"
    from assms(1) Inr lm dm av obtain out where
      "snd (processVariables h lightMode darkMode ?vs []) = Inr out" "variables result = out"
      by (auto simp: processSemanticVariables_def snd_await throws_def returns_def Let_def
            split: sum.splits if_splits)
    moreover have "\<forall>v\<in>set ?vs. startsWith (variable_name v) ''base/''" by simp
    ultimately show ?thesis using that by blast
  qed
  from processVariables_entries[OF loop, of e] assms(2) out obtain v where
    "v \<in> set vs" "name e = variable_name v"
    "cleanName e = replaceSlashes (drop 5 (variable_name v))" by auto
  moreover from base \<open>v \<in> set vs\<close> have "startsWith (variable_name v) ''base/''"
    by (rule bspec)
  ultimately show ?thesis by (intro exI[of _ v]) simp
qed

subsection \<open>The near-grey colour \<open>#040405\<close>\<close>

text \<open>
  Its channels lie on the linear segment of the transfer function, so the LMS values are
  rational numbers; their cube roots are enclosed to seven decimals, which encloses the
  chroma in \<open>[0.0035, 0.004)\<close> and the lightness in \<open>[0.1075, 0.1085)\<close>.
\<close>

lemma root3_bounds:
  assumes "0 \<le> lo" and "lo ^ 3 \<le> v" and "v \<le> hi ^ 3" and "0 \<le> hi"
  shows "lo \<le> root 3 v \<and> root 3 v \<le> hi"
proof -
  have "root 3 (lo ^ 3) \<le> root 3 v" using assms(2) by (simp add: real_root_le_mono)
  moreover have "root 3 v \<le> root 3 (hi ^ 3)" using assms(3) by (simp add: real_root_le_mono)
  moreover have "root 3 (lo ^ 3) = lo" using assms(1) by (simp add: real_root_power_cancel)
  moreover have "root 3 (hi ^ 3) = hi" using assms(4) by (simp add: real_root_power_cancel)
  ultimately show ?thesis by simp
qed

lemma square_bounds_pos:
  fixes a :: real
  assumes "lo \<le> a" and "a \<le> hi" and "0 \<le> lo"
  shows "lo * lo \<le> a * a \<and> a * a \<le> hi * hi"
  using assms by (simp add: mult_mono)

lemma square_bounds_neg:
  fixes b :: real
  assumes "lo \<le> b" and "b \<le> hi" and "hi \<le> 0"
  shows "hi * hi \<le> b * b \<and> b * b \<le> lo * lo"
proof -
  from assms have "- hi \<le> - b" "- b \<le> - lo" "0 \<le> - hi" by simp_all
  from square_bounds_pos[OF this] show ?thesis by simp
qed

lemma near_gray_channels:
  "hexChannels ''#040405'' = (Fin (4 / 255), Fin (4 / 255), Fin (5 / 255))"
  by (simp add: hexChannels_def slice_def parseInt16_def isWhiteSpace_def isHexDigit_def
        hexDigitValue_def Let_def)

lemma near_gray_xyz:
  "rgbToOklch (Fin (4 / 255)) (Fin (4 / 255)) (Fin (5 / 255)) =
     (case xyzToOklab (Fin (1592927 / 1317840000)) (Fin (6786959 / 5491000000))
             (Fin (53056241 / 32946000000)) of
        (okL, okA, okB) \<Rightarrow>
          (okL, Math_sqrt (jadd (jmul okA okA) (jmul okB okB)),
           if jlt (jmul (Math_atan2 okB okA) (Fin (180 / pi))) (Fin 0)
           then jadd (jmul (Math_atan2 okB okA) (Fin (180 / pi))) (Fin 360)
           else jmul (Math_atan2 okB okA) (Fin (180 / pi))))"
  by (simp add: rgbToOklch_def gammaToLinear_Fin Let_def)

lemma near_gray_lab:
  "xyzToOklab (Fin (1592927 / 1317840000)) (Fin (6786959 / 5491000000))
             (Fin (53056241 / 32946000000))
   = (Fin (0.2104542553 * root 3 (202557745070125177 / 164730000000000000000)
           + 0.7936177850 * root 3 (136915034635155559 / 109820000000000000000)
           - 0.0040720468 * root 3 (77191226924459339 / 54910000000000000000)),
      Fin (1.9779984951 * root 3 (202557745070125177 / 164730000000000000000)
           - 2.4285922050 * root 3 (136915034635155559 / 109820000000000000000)
           + 0.4505937099 * root 3 (77191226924459339 / 54910000000000000000)),
      Fin (0.0259040371 * root 3 (202557745070125177 / 164730000000000000000)
           + 0.7827717662 * root 3 (136915034635155559 / 109820000000000000000)
           - 0.8086757660 * root 3 (77191226924459339 / 54910000000000000000)))"
  by (simp add: xyzToOklab_def Let_def)

lemma near_gray_roots:
  "0.1071335 \<le> root 3 (202557745070125177 / 164730000000000000000 :: real)
   \<and> root 3 (202557745070125177 / 164730000000000000000 :: real) \<le> 0.1071336"
  "0.1076274 \<le> root 3 (136915034635155559 / 109820000000000000000 :: real)
   \<and> root 3 (136915034635155559 / 109820000000000000000 :: real) \<le> 0.1076275"
  "0.1120225 \<le> root 3 (77191226924459339 / 54910000000000000000 :: real)
   \<and> root 3 (77191226924459339 / 54910000000000000000 :: real) \<le> 0.1120226"
  by (rule root3_bounds; simp add: power3_eq_cube)+

lemma near_gray_oklch:
  "\<exists>L c oH. rgbToOklch (Fin (4 / 255)) (Fin (4 / 255)) (Fin (5 / 255)) = (Fin L, Fin c, oH)
      \<and> 0.1075 \<le> L \<and> L < 0.1085 \<and> 0.0035 \<le> c \<and> c < 0.004"
proof -
  define lR :: real where "lR = root 3 (202557745070125177 / 164730000000000000000)"
  define mR :: real where "mR = root 3 (136915034635155559 / 109820000000000000000)"
  define sR :: real where "sR = root 3 (77191226924459339 / 54910000000000000000)"
  define L where "L = 0.2104542553 * lR + 0.7936177850 * mR - 0.0040720468 * sR"
  define a where "a = 1.9779984951 * lR - 2.4285922050 * mR + 0.4505937099 * sR"
  define b where "b = 0.0259040371 * lR + 0.7827717662 * mR - 0.8086757660 * sR"
  have lR: "0.1071335 \<le> lR" "lR \<le> 0.1071336"
    and mR: "0.1076274 \<le> mR" "mR \<le> 0.1076275"
    and sR: "0.1120225 \<le> sR" "sR \<le> 0.1120226"
    using near_gray_roots by (simp_all add: lR_def mR_def sR_def)
  have Lb: "0.1075 \<le> L" "L < 0.1085"
    unfolding L_def using lR mR sR by simp_all
  have ab: "0.0010032 \<le> a" "a \<le> 0.0010038"
    unfolding a_def using lR mR sR by simp_all
  have bb: "- 0.0035671 \<le> b" "b \<le> - 0.0035669"
    unfolding b_def using lR mR sR by simp_all
  have a2: "0.0010032 * 0.0010032 \<le> a * a \<and> a * a \<le> 0.0010038 * 0.0010038"
    using ab by (intro square_bounds_pos) simp_all
  have b2: "(- 0.0035669) * (- 0.0035669) \<le> b * b \<and> b * b \<le> (- 0.0035671) * (- 0.0035671)"
    using bb by (intro square_bounds_neg) simp_all
  have lo: "0.0035\<^sup>2 \<le> a * a + b * b" using a2 b2 by (simp add: power2_eq_square)
  have hi: "a * a + b * b < 0.004\<^sup>2" using a2 b2 by (simp add: power2_eq_square)
  have nonneg: "0 \<le> a * a + b * b" by simp
  have c1: "0.0035 \<le> sqrt (a * a + b * b)" using lo by (rule real_le_rsqrt)
  have c2: "sqrt (a * a + b * b) < 0.004" using hi by (intro real_less_lsqrt) simp_all
  have "rgbToOklch (Fin (4 / 255)) (Fin (4 / 255)) (Fin (5 / 255))
      = (Fin L, Fin (sqrt (a * a + b * b)),
         if jlt (jmul (Math_atan2 (Fin b) (Fin a)) (Fin (180 / pi))) (Fin 0)
         then jadd (jmul (Math_atan2 (Fin b) (Fin a)) (Fin (180 / pi))) (Fin 360)
         else jmul (Math_atan2 (Fin b) (Fin a)) (Fin (180 / pi)))"
    unfolding near_gray_xyz near_gray_lab
    using nonneg by (simp add: L_def a_def b_def lR_def mR_def sR_def)
  with Lb c1 c2 show ?thesis by blast
qed

lemma near_gray_output:
  "\<exists>oL c oH. oklchOfHex ''#040405'' = (oL, Fin c, oH) \<and> 0.0035 \<le> c \<and> c < 0.004
      \<and> numberToString (toFixedNumber oL 3) = ''0.108''
      \<and> numberToString (toFixedNumber (Fin c) 3) = ''0.004''"
proof -
  from near_gray_oklch obtain L c oH where
    eq: "rgbToOklch (Fin (4 / 255)) (Fin (4 / 255)) (Fin (5 / 255)) = (Fin L, Fin c, oH)"
    and L: "0.1075 \<le> L" "L < 0.1085" and c: "0.0035 \<le> c" "c < 0.004" by blast
  have "toFixedNumber (Fin L) 3 = Fin (real_of_int 108 / 1000)"
    using L by (intro toFixed3_value) simp_all
  moreover have "real_of_int 108 / 1000 = (108 / 1000 :: real)" by simp
  ultimately have sL: "numberToString (toFixedNumber (Fin L) 3) = ''0.108''"
    by (simp only: numberToString_examples)
  have "toFixedNumber (Fin c) 3 = Fin (real_of_int 4 / 1000)"
    using c by (intro toFixed3_value) simp_all
  moreover have "real_of_int 4 / 1000 = (4 / 1000 :: real)" by simp
  ultimately have sC: "numberToString (toFixedNumber (Fin c) 3) = ''0.004''"
    by (simp only: numberToString_examples)
  have "oklchOfHex ''#040405'' = (Fin L, Fin c, oH)"
    unfolding oklchOfHex_def near_gray_channels by (simp only: prod.case eq)
  with c sL sC show ?thesis by blast
qed

subsection \<open>The colour white\<close>

text \<open>
  The same enclosure for \<open>#ffffff\<close>: the lightness rounds to 1 and the chroma, about
  \<open>0.0001\<close>, is below the threshold.
\<close>

lemma square_le_of_abs:
  fixes a :: real
  assumes "- k \<le> a" and "a \<le> k"
  shows "a * a \<le> k * k"
proof -
  from assms have "\<bar>a\<bar> \<le> k" by simp
  then have "\<bar>a\<bar> * \<bar>a\<bar> \<le> k * k" by (intro mult_mono) simp_all
  then show ?thesis by simp
qed

lemma parseInt16_ff: "parseInt16 ''ff'' = Fin 255"
  by (simp add: parseInt16_def isWhiteSpace_def isHexDigit_def hexDigitValue_def)

lemma white_channels: "hexChannels ''#ffffff'' = (Fin 1, Fin 1, Fin 1)"
  by (simp add: hexChannels_def slice_def parseInt16_ff Let_def)

lemma black_channels: "hexChannels ''#000000'' = (Fin 0, Fin 0, Fin 0)"
  by (simp add: hexChannels_def slice_def parseInt16_00 Let_def)

lemma white_xyz:
  "rgbToOklch (Fin 1) (Fin 1) (Fin 1) =
     (case xyzToOklab (Fin (95047 / 100000)) (Fin (10000001 / 10000000))
             (Fin (108883 / 100000)) of
        (okL, okA, okB) \<Rightarrow>
          (okL, Math_sqrt (jadd (jmul okA okA) (jmul okB okB)),
           if jlt (jmul (Math_atan2 okB okA) (Fin (180 / pi))) (Fin 0)
           then jadd (jmul (Math_atan2 okB okA) (Fin (180 / pi))) (Fin 360)
           else jmul (Math_atan2 okB okA) (Fin (180 / pi))))"
  by (simp add: rgbToOklch_def gammaToLinear_Fin Let_def)

lemma white_lab:
  "xyzToOklab (Fin (95047 / 100000)) (Fin (10000001 / 10000000)) (Fin (108883 / 100000))
   = (Fin (0.2104542553 * root 3 (3124786608213907 / 3125000000000000)
           + 0.7936177850 * root 3 (20000384787448003 / 20000000000000000)
           - 0.0040720468 * root 3 (100033599052128291 / 100000000000000000)),
      Fin (1.9779984951 * root 3 (3124786608213907 / 3125000000000000)
           - 2.4285922050 * root 3 (20000384787448003 / 20000000000000000)
           + 0.4505937099 * root 3 (100033599052128291 / 100000000000000000)),
      Fin (0.0259040371 * root 3 (3124786608213907 / 3125000000000000)
           + 0.7827717662 * root 3 (20000384787448003 / 20000000000000000)
           - 0.8086757660 * root 3 (100033599052128291 / 100000000000000000)))"
  by (simp add: xyzToOklab_def Let_def)

lemma white_roots:
  "0.99997 \<le> root 3 (3124786608213907 / 3125000000000000 :: real)
   \<and> root 3 (3124786608213907 / 3125000000000000 :: real) \<le> 0.99998"
  "1 \<le> root 3 (20000384787448003 / 20000000000000000 :: real)
   \<and> root 3 (20000384787448003 / 20000000000000000 :: real) \<le> 1.00001"
  "1.00011 \<le> root 3 (100033599052128291 / 100000000000000000 :: real)
   \<and> root 3 (100033599052128291 / 100000000000000000 :: real) \<le> 1.00012"
  by (rule root3_bounds; simp add: power3_eq_cube)+

lemma white_oklch:
  "\<exists>L c oH. rgbToOklch (Fin 1) (Fin 1) (Fin 1) = (Fin L, Fin c, oH)
      \<and> 0.9995 \<le> L \<and> L < 1.0005 \<and> c < 0.0035"
proof -
  define lR :: real where "lR = root 3 (3124786608213907 / 3125000000000000)"
  define mR :: real where "mR = root 3 (20000384787448003 / 20000000000000000)"
  define sR :: real where "sR = root 3 (100033599052128291 / 100000000000000000)"
  define L where "L = 0.2104542553 * lR + 0.7936177850 * mR - 0.0040720468 * sR"
  define a where "a = 1.9779984951 * lR - 2.4285922050 * mR + 0.4505937099 * sR"
  define b where "b = 0.0259040371 * lR + 0.7827717662 * mR - 0.8086757660 * sR"
  have lR: "0.99997 \<le> lR" "lR \<le> 0.99998"
    and mR: "1 \<le> mR" "mR \<le> 1.00001"
    and sR: "1.00011 \<le> sR" "sR \<le> 1.00012"
    using white_roots by (simp_all add: lR_def mR_def sR_def)
  have Lb: "0.9995 \<le> L" "L < 1.0005"
    unfolding L_def using lR mR sR by simp_all
  have ab: "- 0.001 \<le> a" "a \<le> 0.001"
    unfolding a_def using lR mR sR by simp_all
  have bb: "- 0.001 \<le> b" "b \<le> 0.001"
    unfolding b_def using lR mR sR by simp_all
  have a2: "a * a \<le> 0.001 * 0.001" using ab by (rule square_le_of_abs)
  have b2: "b * b \<le> 0.001 * 0.001" using bb by (rule square_le_of_abs)
  have hi: "a * a + b * b < 0.0035\<^sup>2" using a2 b2 by (simp add: power2_eq_square)
  have nonneg: "0 \<le> a * a + b * b" by simp
  have c2: "sqrt (a * a + b * b) < 0.0035" using hi by (intro real_less_lsqrt) simp_all
  have "rgbToOklch (Fin 1) (Fin 1) (Fin 1)
      = (Fin L, Fin (sqrt (a * a + b * b)),
         if jlt (jmul (Math_atan2 (Fin b) (Fin a)) (Fin (180 / pi))) (Fin 0)
         then jadd (jmul (Math_atan2 (Fin b) (Fin a)) (Fin (180 / pi))) (Fin 360)
         else jmul (Math_atan2 (Fin b) (Fin a)) (Fin (180 / pi)))"
    unfolding white_xyz white_lab
    using nonneg by (simp add: L_def a_def b_def lR_def mR_def sR_def)
  with Lb c2 show ?thesis by blast
qed

lemma numberToString_1: "numberToString (Fin (1000 / 1000)) = ''1''"
  by (simp add: numberToString.simps(2) Let_def decimalDigits_small padDigits3 digitChar_def
        stripTrailingZeros_def)

lemma hexToOklch_white: "hexToOklch ''#ffffff'' = ''oklch(1 0 0)''"
proof -
  from white_oklch obtain L c oH where
    eq: "rgbToOklch (Fin 1) (Fin 1) (Fin 1) = (Fin L, Fin c, oH)"
    and L: "0.9995 \<le> L" "L < 1.0005" and c: "c < 0.0035" by blast
  have "toFixedNumber (Fin L) 3 = Fin (real_of_int 1000 / 1000)"
    using L by (intro toFixed3_value) simp_all
  moreover have "real_of_int 1000 / 1000 = (1000 / 1000 :: real)" by simp
  ultimately have sL: "numberToString (toFixedNumber (Fin L) 3) = ''1''"
    by (simp only: numberToString_1)
  have "oklchOfHex ''#ffffff'' = (Fin L, Fin c, oH)"
    unfolding oklchOfHex_def white_channels by (simp only: prod.case eq)
  then show ?thesis
    using toFixed3_below[OF c] sL
    by (simp add: hexToOklch_oklchOfHex del: toFixedNumber.simps)
qed

subsection \<open>The example documents evaluated\<close>



lemma eval_surface:
  "resolveVariableValue theme_host surface ''2:0'' {''V:1''} = ([], Inr (Some ''oklch(0 0 0)''))"
  "resolveVariableValue theme_host surface ''2:1'' {''V:1''} = ([], Inr (Some ''oklch(1 0 0)''))"
  by (simp_all add: resolveVariableValue.simps example_defs figmaRgbToHex_examples host_query_defs
        hexToOklch_black hexToOklch_white)


lemma eval_brand_constant:
  "resolveVariableValue theme_host brand_constant ''3:0'' {''V:3''} = ([], Inr (Some ''oklch(0 0 0)''))"
  by (simp add: resolveVariableValue.simps example_defs figmaRgbToHex_examples host_query_defs
        hexToOklch_black)


lemma spaced_fields:
  "variable_name my_color = ''base/my color''" "variableCollectionId my_color = ''C:1''"
  "resolvedType my_color = COLOR"
  "variable_name card_foreground = ''base/card/foreground''"
  "variableCollectionId card_foreground = ''C:1''" "resolvedType card_foreground = COLOR"
  by (simp_all add: my_color_def card_foreground_def variable_with_def)

lemma spaced_host_resolve:
  "resolveVariableValue spaced_host my_color ''1:0'' {} = ([], Inr (Some ''oklch(0 0 0)''))"
  "resolveVariableValue spaced_host my_color ''1:1'' {} = ([], Inr (Some ''oklch(0 0 0)''))"
  "resolveVariableValue spaced_host card_foreground ''1:0'' {} = ([], Inr (Some ''oklch(0 0 0)''))"
  "resolveVariableValue spaced_host card_foreground ''1:1'' {} = ([], Inr (Some ''oklch(0 0 0)''))"
  by (simp_all add: resolveVariableValue.simps my_color_def card_foreground_def variable_with_def
        figmaRgbToHex_examples hexToOklch_black returns_def)

lemma spaced_host_collection:
  "findModeCollection spaced_host
     = ([GetLocalVariableCollections],
        Inr (collection_with ''C:1'' ''Mode'' [(''1:0'', ''Light''), (''1:1'', ''Dark'')]))"
  by (simp add: findModeCollection_def spaced_host_def collection_with_def host_query_defs
        toLowerCase_def lowerChar_def)

lemma spaced_host_loop:
  "processVariables spaced_host \<lparr>modeId = ''1:0'', mode_name = ''Light''\<rparr>
     \<lparr>modeId = ''1:1'', mode_name = ''Dark''\<rparr> [my_color, card_foreground] []
   = ([], Inr [\<lparr>name = ''base/my color'', cleanName = ''my color'',
                lightValue = ''oklch(0 0 0)'', darkValue = ''oklch(0 0 0)''\<rparr>,
               \<lparr>name = ''base/card/foreground'', cleanName = ''card-foreground'',
                lightValue = ''oklch(0 0 0)'', darkValue = ''oklch(0 0 0)''\<rparr>])"
  by (simp add: spaced_host_resolve await_def returns_def falsy_def spaced_fields
        replaceSlashes_def)

lemma spaced_host_export:
  "snd (processSemanticVariables spaced_host)
     = Inr \<lparr>variables =
              [\<lparr>name = ''base/my color'', cleanName = ''my color'',
                lightValue = ''oklch(0 0 0)'', darkValue = ''oklch(0 0 0)''\<rparr>,
               \<lparr>name = ''base/card/foreground'', cleanName = ''card-foreground'',
                lightValue = ''oklch(0 0 0)'', darkValue = ''oklch(0 0 0)''\<rparr>],
            collectionName = ''Mode''\<rparr>"
proof -
  have vars: "getLocalVariablesAsync spaced_host COLOR
     = ([GetLocalVariables], Inr [my_color, card_foreground])"
    by (simp add: getLocalVariablesAsync_def query_def spaced_host_def spaced_fields)
  show ?thesis
    unfolding processSemanticVariables_def spaced_host_collection
    by (simp add: await_returns collection_with_def lower_examples vars spaced_fields
          startsWith_def spaced_host_loop Let_def returns_def del: processVariables.simps)
qed

lemma eval_cycle_targets:
  "snd (targetModeOf cycle_host ping ''1:1''
          (collection_with ''C:1'' ''Mode'' [(''1:0'', ''Light''), (''1:1'', ''Dark'')]))
     = Inr ''1:1''"
  "snd (targetModeOf cycle_host pong ''1:1''
          (collection_with ''C:1'' ''Mode'' [(''1:0'', ''Light''), (''1:1'', ''Dark'')]))
     = Inr ''1:1''"
  by (simp_all add: targetModeOf_def cycle_host_def ping_def pong_def variable_with_def
        collection_with_def lower_examples host_query_defs)

lemma eval_third_mode:
  "resolveVariableValue third_mode_host third_ping ''1:2'' {}
     = ([GetVariableById ''V:B'', GetVariableCollectionById ''C:1'', GetVariableCollectionById ''C:1''],
        Inr (Some ''oklch(0 0 0)''))"
  "resolveVariableValue third_mode_host third_pong ''1:2'' {}
     = ([GetVariableById ''V:A'', GetVariableCollectionById ''C:1'', GetVariableCollectionById ''C:1''],
        Inr (Some ''oklch(0 0 0)''))"
  by (simp_all add: resolveVariableValue.simps third_mode_host_def third_ping_def third_pong_def
        variable_with_def collection_with_def figmaRgbToHex_examples lower_examples
        toLowerCase_def lowerChar_def host_query_defs hexToOklch_black)

lemma offline_host_export:
  "snd (processSemanticVariables offline_host) = Inl (Error ''Network unavailable'')"
  by (simp add: processSemanticVariables_def findModeCollection_def offline_host_def
        getLocalVariableCollectionsAsync_def query_def await_throws)

section \<open>Mode correlation by name\<close>

text \<open>
  Claim C1. Let \<open>V\<close>, not yet visited, hold at mode \<open>M\<close> an alias to a stored variable \<open>W\<close>
  whose collection has a mode named \<open>light\<close> and a mode named \<open>dark\<close> (in any letter
  case). If the mode of \<open>V\<close>'s own collection with identifier \<open>M\<close> is named \<open>light\<close>, the
  resolver continues with \<open>W\<close> at the identifier of \<open>W\<close>'s \<open>light\<close> mode; if it is named
  \<open>dark\<close>, at the identifier of \<open>W\<close>'s \<open>dark\<close> mode: the result of resolving \<open>V\<close> is the
  result of resolving \<open>W\<close> there, after the three host queries.
\<close>

theorem light_dark_alias:
  assumes "variable_id v \<notin> visited"
    and "valuesByMode v m = Some (VariableAlias i)"
    and "host_rejects h (GetVariableById i) = None"
    and "find (\<lambda>x. variable_id x = i) (host_variables h) = Some w"
    and "host_rejects h (GetVariableCollectionById (variableCollectionId w)) = None"
    and "find (\<lambda>c. collection_id c = variableCollectionId w) (host_collections h) = Some ac"
    and "find (\<lambda>x. toLowerCase (mode_name x) = ''light'') (modes ac) = Some lightMode"
    and "find (\<lambda>x. toLowerCase (mode_name x) = ''dark'') (modes ac) = Some darkMode"
    and "host_rejects h (GetVariableCollectionById (variableCollectionId v)) = None"
    and "find (\<lambda>c. collection_id c = variableCollectionId v) (host_collections h) = Some cv"
    and "find (\<lambda>x. modeId x = m) (modes cv) = Some currentMode"
  shows "(toLowerCase (mode_name currentMode) = ''light'' \<longrightarrow>
          resolveVariableValue h v m visited =
            ([GetVariableById i, GetVariableCollectionById (variableCollectionId w),
              GetVariableCollectionById (variableCollectionId v)]
               @ fst (resolveVariableValue h w (modeId lightMode) (insert (variable_id v) visited)),
             snd (resolveVariableValue h w (modeId lightMode) (insert (variable_id v) visited))))
       \<and> (toLowerCase (mode_name currentMode) = ''dark'' \<longrightarrow>
          resolveVariableValue h v m visited =
            ([GetVariableById i, GetVariableCollectionById (variableCollectionId w),
              GetVariableCollectionById (variableCollectionId v)]
               @ fst (resolveVariableValue h w (modeId darkMode) (insert (variable_id v) visited)),
             snd (resolveVariableValue h w (modeId darkMode) (insert (variable_id v) visited))))"
  unfolding resolve_alias_found[OF assms(1-6)]
  by (simp add: await_returns assms(7-11) returns_def getVariableCollectionByIdAsync_def query_def)

theorem light_dark_alias_witness:
  "resolveVariableValue theme_host background ''1:1'' {}
     = ([GetVariableById ''V:2'', GetVariableCollectionById ''C:2'', GetVariableCollectionById ''C:1''],
        Inr (Some ''oklch(0 0 0)''))
   \<and> resolveVariableValue theme_host background ''1:0'' {}
     = ([GetVariableById ''V:2'', GetVariableCollectionById ''C:2'', GetVariableCollectionById ''C:1''],
        Inr (Some ''oklch(1 0 0)''))"
  using light_dark_alias[of background "{}" "''1:1''" "''V:2''" theme_host surface
          "collection_with ''C:2'' ''Theme'' [(''2:0'', ''Dark''), (''2:1'', ''Light'')]"
          "\<lparr>modeId = ''2:1'', mode_name = ''Light''\<rparr>" "\<lparr>modeId = ''2:0'', mode_name = ''Dark''\<rparr>"
          "collection_with ''C:1'' ''Mode'' [(''1:0'', ''Light''), (''1:1'', ''Dark'')]"
          "\<lparr>modeId = ''1:1'', mode_name = ''Dark''\<rparr>"]
        light_dark_alias[of background "{}" "''1:0''" "''V:2''" theme_host surface
          "collection_with ''C:2'' ''Theme'' [(''2:0'', ''Dark''), (''2:1'', ''Light'')]"
          "\<lparr>modeId = ''2:1'', mode_name = ''Light''\<rparr>" "\<lparr>modeId = ''2:0'', mode_name = ''Dark''\<rparr>"
          "collection_with ''C:1'' ''Mode'' [(''1:0'', ''Light''), (''1:1'', ''Dark'')]"
          "\<lparr>modeId = ''1:0'', mode_name = ''Light''\<rparr>"]
        eval_surface
  by (simp add: example_defs lower_examples)

section \<open>The cycle guard\<close>

text \<open>
  Claim C2, as amended. The resolver is a total function: its recursion is well-founded for
  every store, cyclic or not (the termination proof above). A variable whose identifier is
  in \<open>visited\<close> yields null at once, with no host query and no recursion. The number of
  recursive calls is at most the number of stored identifiers not yet visited, plus one.
  On a two-node cycle, where \<open>A\<close> aliases \<open>B\<close> at the requested mode and \<open>B\<close> aliases \<open>A\<close>
  at the mode the resolver selects for \<open>B\<close> (the requested mode itself, unless the
  correlation by name or a single-mode collection redirects it), resolution returns null
  after exactly two variable lookups: the guard fires on the second visit of the starting
  variable. This holds for either variable as the start.
\<close>

theorem cycle_guard:
  "(variable_id v \<in> visited \<longrightarrow> resolveVariableValue h v m visited = ([], Inr None))
   \<and> variableLookups (fst (resolveVariableValue h v m visited))
        \<le> Suc (card (variable_id ` set (host_variables h) - visited))
   \<and> (host_rejects h = Map.empty
        \<and> find (\<lambda>x. variable_id x = variable_id a) (host_variables h) = Some a
        \<and> find (\<lambda>x. variable_id x = variable_id b) (host_variables h) = Some b
        \<and> variable_id a \<noteq> variable_id b
        \<and> valuesByMode a m = Some (VariableAlias (variable_id b))
        \<and> find (\<lambda>x. collection_id x = variableCollectionId b) (host_collections h) = Some cb
        \<and> snd (targetModeOf h a m cb) = Inr tb
        \<and> valuesByMode b tb = Some (VariableAlias (variable_id a))
      \<longrightarrow> snd (resolveVariableValue h a m {}) = Inr None
          \<and> variableLookups (fst (resolveVariableValue h a m {})) = 2)
   \<and> (host_rejects h = Map.empty
        \<and> find (\<lambda>x. variable_id x = variable_id a) (host_variables h) = Some a
        \<and> find (\<lambda>x. variable_id x = variable_id b) (host_variables h) = Some b
        \<and> variable_id a \<noteq> variable_id b
        \<and> valuesByMode b m = Some (VariableAlias (variable_id a))
        \<and> find (\<lambda>x. collection_id x = variableCollectionId a) (host_collections h) = Some ca
        \<and> snd (targetModeOf h b m ca) = Inr ta
        \<and> valuesByMode a ta = Some (VariableAlias (variable_id b))
      \<longrightarrow> snd (resolveVariableValue h b m {}) = Inr None
          \<and> variableLookups (fst (resolveVariableValue h b m {})) = 2)"
proof (intro conjI)
  show "variable_id v \<in> visited \<longrightarrow> resolveVariableValue h v m visited = ([], Inr None)"
    by (simp add: resolve_visited returns_def)
next
  show "variableLookups (fst (resolveVariableValue h v m visited))
        \<le> Suc (card (variable_id ` set (host_variables h) - visited))"
    by (rule resolve_lookups_bound)
next
  show "host_rejects h = Map.empty
        \<and> find (\<lambda>x. variable_id x = variable_id a) (host_variables h) = Some a
        \<and> find (\<lambda>x. variable_id x = variable_id b) (host_variables h) = Some b
        \<and> variable_id a \<noteq> variable_id b
        \<and> valuesByMode a m = Some (VariableAlias (variable_id b))
        \<and> find (\<lambda>x. collection_id x = variableCollectionId b) (host_collections h) = Some cb
        \<and> snd (targetModeOf h a m cb) = Inr tb
        \<and> valuesByMode b tb = Some (VariableAlias (variable_id a))
      \<longrightarrow> snd (resolveVariableValue h a m {}) = Inr None
          \<and> variableLookups (fst (resolveVariableValue h a m {})) = 2"
  proof
    assume H: "host_rejects h = Map.empty
        \<and> find (\<lambda>x. variable_id x = variable_id a) (host_variables h) = Some a
        \<and> find (\<lambda>x. variable_id x = variable_id b) (host_variables h) = Some b
        \<and> variable_id a \<noteq> variable_id b
        \<and> valuesByMode a m = Some (VariableAlias (variable_id b))
        \<and> find (\<lambda>x. collection_id x = variableCollectionId b) (host_collections h) = Some cb
        \<and> snd (targetModeOf h a m cb) = Inr tb
        \<and> valuesByMode b tb = Some (VariableAlias (variable_id a))"
    then have norej: "host_rejects h = Map.empty"
      and fa: "find (\<lambda>x. variable_id x = variable_id a) (host_variables h) = Some a"
      and fb: "find (\<lambda>x. variable_id x = variable_id b) (host_variables h) = Some b"
      and ne: "variable_id a \<noteq> variable_id b"
      and ab: "valuesByMode a m = Some (VariableAlias (variable_id b))"
      and cb: "find (\<lambda>x. collection_id x = variableCollectionId b) (host_collections h) = Some cb"
      and tg: "snd (targetModeOf h a m cb) = Inr tb"
      and ba: "valuesByMode b tb = Some (VariableAlias (variable_id a))"
      by simp_all
    show "snd (resolveVariableValue h a m {}) = Inr None
          \<and> variableLookups (fst (resolveVariableValue h a m {})) = 2"
      using norej fa fb ne ab cb tg ba by (rule two_node_cycle_null)
  qed
next
  show "host_rejects h = Map.empty
        \<and> find (\<lambda>x. variable_id x = variable_id a) (host_variables h) = Some a
        \<and> find (\<lambda>x. variable_id x = variable_id b) (host_variables h) = Some b
        \<and> variable_id a \<noteq> variable_id b
        \<and> valuesByMode b m = Some (VariableAlias (variable_id a))
        \<and> find (\<lambda>x. collection_id x = variableCollectionId a) (host_collections h) = Some ca
        \<and> snd (targetModeOf h b m ca) = Inr ta
        \<and> valuesByMode a ta = Some (VariableAlias (variable_id b))
      \<longrightarrow> snd (resolveVariableValue h b m {}) = Inr None
          \<and> variableLookups (fst (resolveVariableValue h b m {})) = 2"
  proof
    assume H: "host_rejects h = Map.empty
        \<and> find (\<lambda>x. variable_id x = variable_id a) (host_variables h) = Some a
        \<and> find (\<lambda>x. variable_id x = variable_id b) (host_variables h) = Some b
        \<and> variable_id a \<noteq> variable_id b
        \<and> valuesByMode b m = Some (VariableAlias (variable_id a))
        \<and> find (\<lambda>x. collection_id x = variableCollectionId a) (host_collections h) = Some ca
        \<and> snd (targetModeOf h b m ca) = Inr ta
        \<and> valuesByMode a ta = Some (VariableAlias (variable_id b))"
    then have norej: "host_rejects h = Map.empty"
      and fa: "find (\<lambda>x. variable_id x = variable_id a) (host_variables h) = Some a"
      and fb: "find (\<lambda>x. variable_id x = variable_id b) (host_variables h) = Some b"
      and ne: "variable_id a \<noteq> variable_id b"
      and ba: "valuesByMode b m = Some (VariableAlias (variable_id a))"
      and ca: "find (\<lambda>x. collection_id x = variableCollectionId a) (host_collections h) = Some ca"
      and tg: "snd (targetModeOf h b m ca) = Inr ta"
      and ab: "valuesByMode a ta = Some (VariableAlias (variable_id b))"
      by simp_all
    from ne have ne': "variable_id b \<noteq> variable_id a" by (rule not_sym)
    show "snd (resolveVariableValue h b m {}) = Inr None
          \<and> variableLookups (fst (resolveVariableValue h b m {})) = 2"
      using norej fb fa ne' ba ca tg ab by (rule two_node_cycle_null)
  qed
qed

theorem cycle_guard_witness:
  "resolveVariableValue cycle_host ping ''1:1'' {''V:A''} = ([], Inr None)
   \<and> variableLookups (fst (resolveVariableValue cycle_host ping ''1:1'' {})) \<le> 3
   \<and> snd (resolveVariableValue cycle_host ping ''1:1'' {}) = Inr None
   \<and> snd (resolveVariableValue cycle_host pong ''1:1'' {}) = Inr None
   \<and> variableLookups (fst (resolveVariableValue cycle_host ping ''1:1'' {})) = 2
   \<and> variableLookups (fst (resolveVariableValue cycle_host pong ''1:1'' {})) = 2"
proof -
  have ids: "variable_id ` set (host_variables cycle_host) = {''V:A'', ''V:B''}"
    by (simp add: cycle_host_def ping_def pong_def variable_with_def)
  have "card {''V:A'', ''V:B''} = 2" by simp
  with ids have card: "Suc (card (variable_id ` set (host_variables cycle_host) - {})) = 3" by simp
  show ?thesis
    using cycle_guard[of ping "{''V:A''}" cycle_host "''1:1''" ping pong
            "collection_with ''C:1'' ''Mode'' [(''1:0'', ''Light''), (''1:1'', ''Dark'')]" "''1:1''"
            "collection_with ''C:1'' ''Mode'' [(''1:0'', ''Light''), (''1:1'', ''Dark'')]" "''1:1''"]
          cycle_guard[of ping "{}" cycle_host "''1:1''" ping pong
            "collection_with ''C:1'' ''Mode'' [(''1:0'', ''Light''), (''1:1'', ''Dark'')]" "''1:1''"
            "collection_with ''C:1'' ''Mode'' [(''1:0'', ''Light''), (''1:1'', ''Dark'')]" "''1:1''"]
          eval_cycle_targets
    unfolding card
    by (simp add: cycle_host_def ping_def pong_def variable_with_def collection_with_def)
qed

text \<open>
  The claim as first stated fails where the correlation by name leaves the cycle: the two
  variables alias each other in the mode \<open>1:2\<close>, named \<open>light\<close>; the resolver continues at
  the first mode of that name, \<open>1:0\<close>, where both hold a colour, and returns it.
\<close>

theorem same_mode_cycle_counterexample:
  "valuesByMode third_ping ''1:2'' = Some (VariableAlias (variable_id third_pong))
   \<and> valuesByMode third_pong ''1:2'' = Some (VariableAlias (variable_id third_ping))
   \<and> snd (resolveVariableValue third_mode_host third_ping ''1:2'' {}) = Inr (Some ''oklch(0 0 0)'')
   \<and> snd (resolveVariableValue third_mode_host third_pong ''1:2'' {}) = Inr (Some ''oklch(0 0 0)'')"
  by (simp add: eval_third_mode) (simp add: third_ping_def third_pong_def variable_with_def)

section \<open>The achromatic threshold\<close>

text \<open>
  Claim C3, as amended. The threshold 0.004 is compared with the chroma after its rounding
  to three decimals. A hex input whose unrounded chroma is below 0.0035 is printed as
  \<open>oklch(L 0 0)\<close>; from 0.0035 on the rounded chroma is at least 0.004 and the three
  components are printed.
\<close>

theorem achromatic_threshold:
  assumes "oklchOfHex hex0 = (oL, Fin c, oH)"
  shows "(c < 0.0035 \<longrightarrow>
            hexToOklch hex0 = ''oklch('' @ numberToString (toFixedNumber oL 3) @ '' 0 0)'')
       \<and> (0.0035 \<le> c \<longrightarrow>
            hexToOklch hex0 = ''oklch('' @ numberToString (toFixedNumber oL 3) @ '' ''
               @ numberToString (toFixedNumber (Fin c) 3) @ '' ''
               @ numberToString (toFixedNumber oH 1) @ '')'')"
  using toFixed3_below[of c] toFixed3_above[of c]
  by (simp add: hexToOklch_oklchOfHex assms del: toFixedNumber.simps)

theorem achromatic_threshold_witness:
  "hexToOklch ''#000000'' = ''oklch(0 0 0)''
   \<and> (\<exists>oH. hexToOklch ''#040405''
             = ''oklch(0.108 0.004 '' @ numberToString (toFixedNumber oH 1) @ '')'')"
proof -
  have "hexToOklch ''#000000'' = ''oklch(0 0 0)''"
    using achromatic_threshold[OF oklchOfHex_black] by (simp add: numberToString_0)
  moreover from near_gray_output obtain oL c oH where
    eq: "oklchOfHex ''#040405'' = (oL, Fin c, oH)" and c: "0.0035 \<le> c"
    and sL: "numberToString (toFixedNumber oL 3) = ''0.108''"
    and sC: "numberToString (toFixedNumber (Fin c) 3) = ''0.004''" by blast
  from achromatic_threshold[OF eq] c sL sC
  have "hexToOklch ''#040405''
             = ''oklch(0.108 0.004 '' @ numberToString (toFixedNumber oH 1) @ '')''"
    by (simp del: toFixedNumber.simps)
  ultimately show ?thesis by blast
qed

text \<open>
  The claim as first stated fails between the two thresholds: the unrounded chroma of
  \<open>#040405\<close> is below 0.004, and the output carries the chroma 0.004 and a hue.
\<close>

theorem near_gray_counterexample:
  "\<exists>oL c oH. oklchOfHex ''#040405'' = (oL, Fin c, oH) \<and> c < 0.004
      \<and> hexToOklch ''#040405''
            = ''oklch(0.108 0.004 '' @ numberToString (toFixedNumber oH 1) @ '')''
      \<and> hexToOklch ''#040405'' \<noteq> ''oklch('' @ numberToString (toFixedNumber oL 3) @ '' 0 0)''"
proof -
  from near_gray_output obtain oL c oH where
    eq: "oklchOfHex ''#040405'' = (oL, Fin c, oH)" and c: "0.0035 \<le> c" "c < 0.004"
    and sL: "numberToString (toFixedNumber oL 3) = ''0.108''"
    and sC: "numberToString (toFixedNumber (Fin c) 3) = ''0.004''" by blast
  have out: "hexToOklch ''#040405''
            = ''oklch(0.108 0.004 '' @ numberToString (toFixedNumber oH 1) @ '')''"
    using toFixed3_above[OF c(1)] sL sC
    by (simp add: hexToOklch_oklchOfHex eq del: toFixedNumber.simps)
  then have "hexToOklch ''#040405'' \<noteq> ''oklch('' @ numberToString (toFixedNumber oL 3) @ '' 0 0)''"
    by (simp add: sL)
  with eq c(2) out show ?thesis by blast
qed

section \<open>Aliases into a single-mode collection\<close>

text \<open>
  Claim C4. Let \<open>V\<close>, not yet visited, hold at mode \<open>M\<close> an alias to a stored variable \<open>W\<close>
  whose collection has exactly one mode. The resolver continues with \<open>W\<close> at that mode's
  identifier, whatever \<open>M\<close> is: the result of resolving \<open>V\<close> is the result of resolving
  \<open>W\<close> there, after the two host queries.
\<close>

theorem single_mode_alias:
  assumes "variable_id v \<notin> visited"
    and "valuesByMode v m = Some (VariableAlias i)"
    and "host_rejects h (GetVariableById i) = None"
    and "find (\<lambda>x. variable_id x = i) (host_variables h) = Some w"
    and "host_rejects h (GetVariableCollectionById (variableCollectionId w)) = None"
    and "find (\<lambda>c. collection_id c = variableCollectionId w) (host_collections h) = Some ac"
    and "modes ac = [sm]"
  shows "resolveVariableValue h v m visited =
     ([GetVariableById i, GetVariableCollectionById (variableCollectionId w)]
        @ fst (resolveVariableValue h w (modeId sm) (insert (variable_id v) visited)),
      snd (resolveVariableValue h w (modeId sm) (insert (variable_id v) visited)))"
proof -
  have "(case (find (\<lambda>m. toLowerCase (mode_name m) = ''light'') [sm],
                find (\<lambda>m. toLowerCase (mode_name m) = ''dark'') [sm]) of
            (Some lightMode, Some darkMode) \<Rightarrow> X lightMode darkMode
          | _ \<Rightarrow> Y) = Y" for X :: "mode \<Rightarrow> mode \<Rightarrow> string async" and Y
    by (auto split: option.splits if_splits)
  then show ?thesis
    unfolding resolve_alias_found[OF assms(1-6)]
    by (simp add: await_returns assms(7) returns_def)
qed

theorem single_mode_alias_witness:
  "resolveVariableValue theme_host brand ''1:1'' {}
     = ([GetVariableById ''V:4'', GetVariableCollectionById ''C:3''], Inr (Some ''oklch(0 0 0)''))"
  using single_mode_alias[of brand "{}" "''1:1''" "''V:4''" theme_host brand_constant
          "collection_with ''C:3'' ''Constants'' [(''3:0'', ''Value'')]"
          "\<lparr>modeId = ''3:0'', mode_name = ''Value''\<rparr>"]
        eval_brand_constant
  by (simp add: example_defs)

section \<open>Both modes or no entry\<close>



section \<open>Clean names\<close>

text \<open>
  Claim C6, as amended. Every exported entry has a name that starts with \<open>base/\<close>; its
  clean name is the rest of the name with every \<open>/\<close> replaced by \<open>-\<close>, so it contains no
  \<open>/\<close>. It consists of characters of \<open>[A-Za-z0-9-]\<close> whenever the rest of the name
  consists of such characters and \<open>/\<close>; other characters of the name are kept as they are.
\<close>

theorem clean_name_construction:
  assumes "snd (processSemanticVariables h) = Inr result" and "e \<in> set (variables result)"
  shows "name e = ''base/'' @ drop 5 (name e)
       \<and> cleanName e = replaceSlashes (drop 5 (name e))
       \<and> CHR ''/'' \<notin> set (cleanName e)
       \<and> (list_all (\<lambda>c. cssNameChar c \<or> c = CHR ''/'') (drop 5 (name e))
            \<longrightarrow> list_all cssNameChar (cleanName e))"
proof -
  from processSemanticVariables_entries[OF assms] obtain v :: variable where
    v: "startsWith (variable_name v) ''base/''" "name e = variable_name v"
       "cleanName e = replaceSlashes (drop 5 (variable_name v))" by blast
  from v(1,2) have "name e = ''base/'' @ drop 5 (name e)" using startsWith_base by simp
  moreover from v(2,3) have c: "cleanName e = replaceSlashes (drop 5 (name e))" by simp
  ultimately show ?thesis
    using replaceSlashes_no_slash[of "drop 5 (name e)"]
      replaceSlashes_cssNameChar[of "drop 5 (name e)"] by simp
qed

theorem clean_name_construction_witness:
  "cleanName \<lparr>name = ''base/card/foreground'', cleanName = ''card-foreground'',
              lightValue = ''oklch(0 0 0)'', darkValue = ''oklch(0 0 0)''\<rparr>
     = replaceSlashes ''card/foreground''
   \<and> list_all cssNameChar ''card-foreground''"
  using clean_name_construction[OF spaced_host_export,
          of "\<lparr>name = ''base/card/foreground'', cleanName = ''card-foreground'',
               lightValue = ''oklch(0 0 0)'', darkValue = ''oklch(0 0 0)''\<rparr>"]
  by (simp add: cssNameChar_def replaceSlashes_def)

text \<open>
  The claim as first stated fails for a name with a space: \<open>base/my color\<close> is exported
  with the clean name \<open>my color\<close>.
\<close>

theorem clean_name_counterexample:
  "snd (processSemanticVariables spaced_host)
     = Inr \<lparr>variables =
              [\<lparr>name = ''base/my color'', cleanName = ''my color'',
                lightValue = ''oklch(0 0 0)'', darkValue = ''oklch(0 0 0)''\<rparr>,
               \<lparr>name = ''base/card/foreground'', cleanName = ''card-foreground'',
                lightValue = ''oklch(0 0 0)'', darkValue = ''oklch(0 0 0)''\<rparr>],
            collectionName = ''Mode''\<rparr>
   \<and> \<not> list_all cssNameChar ''my color''"
  by (simp add: spaced_host_export cssNameChar_def)

section \<open>One message per run\<close>

text \<open>
  Claim C7, as amended. Every run posts exactly one message. After a successful export it
  is the completion message with the stylesheet, the number of variables and the
  collection name. After a thrown error it is the error message, whose text is the
  error's own message when that is not empty and the fixed text \<open>Unknown error occurred\<close>
  when it is empty.
\<close>

theorem main_posts_one_message:
  "length (main h) = 1
   \<and> main h =
       (case snd (processSemanticVariables h) of
          Inr result \<Rightarrow>
            [ExportComplete (generateShadcnCSS result) (length (variables result))
               (collectionName result)]
        | Inl (Error msg) \<Rightarrow>
            [ErrorMessage (if msg = [] then ''Unknown error occurred'' else msg)])"
  by (simp add: main_def split: sum.splits thrown.splits)

theorem main_posts_one_message_witness:
  "main spaced_host
     = [ExportComplete
          (generateShadcnCSS
             \<lparr>variables =
                [\<lparr>name = ''base/my color'', cleanName = ''my color'',
                  lightValue = ''oklch(0 0 0)'', darkValue = ''oklch(0 0 0)''\<rparr>,
                 \<lparr>name = ''base/card/foreground'', cleanName = ''card-foreground'',
                  lightValue = ''oklch(0 0 0)'', darkValue = ''oklch(0 0 0)''\<rparr>],
              collectionName = ''Mode''\<rparr>)
          2 ''Mode'']
   \<and> main offline_host = [ErrorMessage ''Network unavailable'']"
  using main_posts_one_message[of spaced_host] main_posts_one_message[of offline_host]
  by (simp add: spaced_host_export offline_host_export)

text \<open>
  The claim as first stated fails for an error without a message: the posted text is not
  the (empty) message of the fault.
\<close>

theorem empty_message_counterexample:
  "processSemanticVariables silent_host = ([GetLocalVariableCollections], Inl (Error []))
   \<and> main silent_host = [ErrorMessage ''Unknown error occurred'']"
proof -
  have "processSemanticVariables silent_host = ([GetLocalVariableCollections], Inl (Error []))"
    by (simp add: processSemanticVariables_def findModeCollection_def silent_host_def
          getLocalVariableCollectionsAsync_def query_def await_throws)
  then show ?thesis by (simp add: main_def)
qed

section \<open>No semantic collection\<close>

text \<open>
  Claim C8. When the host delivers its collections and none has a name containing \<open>mode\<close>
  (in any letter case), the run fails with the error that asks for such a collection, and
  the enumeration of the collections is the only host query made: no variable is read.
\<close>

theorem no_mode_collection:
  assumes "host_rejects h GetLocalVariableCollections = None"
    and "filter (\<lambda>collection. includes_str (toLowerCase (collection_name collection)) ''mode'')
           (host_collections h) = []"
  shows "processSemanticVariables h
       = ([GetLocalVariableCollections],
          Inl (Error (''No collection found with '' @ dq @ ''Mode'' @ dq
                 @ '' in the name. Please create a collection containing '' @ dq @ ''Mode'' @ dq
                 @ '' in its name.'')))
     \<and> main h
       = [ErrorMessage (''No collection found with '' @ dq @ ''Mode'' @ dq
                 @ '' in the name. Please create a collection containing '' @ dq @ ''Mode'' @ dq
                 @ '' in its name.'')]"
proof -
  have "findModeCollection h
       = ([GetLocalVariableCollections],
          Inl (Error (''No collection found with '' @ dq @ ''Mode'' @ dq
                 @ '' in the name. Please create a collection containing '' @ dq @ ''Mode'' @ dq
                 @ '' in its name.'')))"
    using assms
    by (simp add: findModeCollection_def getLocalVariableCollectionsAsync_def query_def
          await_returns throws_def)
  then have "processSemanticVariables h
       = ([GetLocalVariableCollections],
          Inl (Error (''No collection found with '' @ dq @ ''Mode'' @ dq
                 @ '' in the name. Please create a collection containing '' @ dq @ ''Mode'' @ dq
                 @ '' in its name.'')))"
    by (simp add: processSemanticVariables_def await_throws)
  then show ?thesis by (simp add: main_def dq_def)
qed

theorem no_mode_collection_witness:
  "processSemanticVariables themes_only_host
       = ([GetLocalVariableCollections],
          Inl (Error (''No collection found with '' @ dq @ ''Mode'' @ dq
                 @ '' in the name. Please create a collection containing '' @ dq @ ''Mode'' @ dq
                 @ '' in its name.'')))
     \<and> main themes_only_host
       = [ErrorMessage (''No collection found with '' @ dq @ ''Mode'' @ dq
                 @ '' in the name. Please create a collection containing '' @ dq @ ''Mode'' @ dq
                 @ '' in its name.'')]"
  using no_mode_collection[of themes_only_host]
  by (simp add: themes_only_host_def collection_with_def toLowerCase_def lowerChar_def)

section \<open>Three-digit shorthand\<close>

text \<open>
  Claim C9. For every three-digit hex string \<open>#xyz\<close>, \<open>hexToOklch\<close> duplicates each digit:
  the channels it reads are those of \<open>#xxyyzz\<close>, namely the two-digit values \<open>xx\<close>, \<open>yy\<close>
  and \<open>zz\<close> over 255, its output is the formatted conversion of these channels, and so it
  is exactly the output for the six-digit string \<open>#xxyyzz\<close>.
\<close>

theorem hexToOklch_shorthand:
  "hexToOklch [CHR ''#'', x, y, z] = hexToOklch [CHR ''#'', x, x, y, y, z, z]
   \<and> hexChannels [CHR ''#'', x, y, z] = hexChannels [CHR ''#'', x, x, y, y, z, z]
   \<and> (isHexDigit x \<and> isHexDigit y \<and> isHexDigit z \<longrightarrow>
        hexChannels [CHR ''#'', x, y, z]
          = (Fin (real (16 * the (hexDigitValue x) + the (hexDigitValue x)) / 255),
             Fin (real (16 * the (hexDigitValue y) + the (hexDigitValue y)) / 255),
             Fin (real (16 * the (hexDigitValue z) + the (hexDigitValue z)) / 255))
        \<and> hexToOklch [CHR ''#'', x, y, z]
          = (case rgbToOklch
                    (Fin (real (16 * the (hexDigitValue x) + the (hexDigitValue x)) / 255))
                    (Fin (real (16 * the (hexDigitValue y) + the (hexDigitValue y)) / 255))
                    (Fin (real (16 * the (hexDigitValue z) + the (hexDigitValue z)) / 255)) of
               (oL, oC, oH) \<Rightarrow>
                 if jlt (toFixedNumber oC 3) (Fin 0.004)
                 then ''oklch('' @ numberToString (toFixedNumber oL 3) @ '' 0 0)''
                 else ''oklch('' @ numberToString (toFixedNumber oL 3) @ '' ''
                      @ numberToString (toFixedNumber oC 3) @ '' ''
                      @ numberToString (toFixedNumber oH 1) @ '')''))"
proof (intro conjI impI)
  show "hexToOklch [CHR ''#'', x, y, z] = hexToOklch [CHR ''#'', x, x, y, y, z, z]"
    by (simp add: hexToOklch_def)
  show "hexChannels [CHR ''#'', x, y, z] = hexChannels [CHR ''#'', x, x, y, y, z, z]"
    by (simp add: hexChannels_def)
next
  assume d: "isHexDigit x \<and> isHexDigit y \<and> isHexDigit z"
  then show ch: "hexChannels [CHR ''#'', x, y, z]
          = (Fin (real (16 * the (hexDigitValue x) + the (hexDigitValue x)) / 255),
             Fin (real (16 * the (hexDigitValue y) + the (hexDigitValue y)) / 255),
             Fin (real (16 * the (hexDigitValue z) + the (hexDigitValue z)) / 255))"
    by (simp add: hexChannels_def slice_def parseInt16_two_digits Let_def)
  show "hexToOklch [CHR ''#'', x, y, z]
          = (case rgbToOklch
                    (Fin (real (16 * the (hexDigitValue x) + the (hexDigitValue x)) / 255))
                    (Fin (real (16 * the (hexDigitValue y) + the (hexDigitValue y)) / 255))
                    (Fin (real (16 * the (hexDigitValue z) + the (hexDigitValue z)) / 255)) of
               (oL, oC, oH) \<Rightarrow>
                 if jlt (toFixedNumber oC 3) (Fin 0.004)
                 then ''oklch('' @ numberToString (toFixedNumber oL 3) @ '' 0 0)''
                 else ''oklch('' @ numberToString (toFixedNumber oL 3) @ '' ''
                      @ numberToString (toFixedNumber oC 3) @ '' ''
                      @ numberToString (toFixedNumber oH 1) @ '')'')"
    unfolding hexToOklch_oklchOfHex oklchOfHex_def ch by (simp only: prod.case)
qed

theorem hexToOklch_shorthand_witness:
  "hexToOklch ''#fff'' = ''oklch(1 0 0)'' \<and> hexToOklch ''#ffffff'' = ''oklch(1 0 0)''
   \<and> hexChannels ''#fff'' = (Fin 1, Fin 1, Fin 1)
   \<and> hexChannels ''#000'' = (Fin 0, Fin 0, Fin 0)
   \<and> hexToOklch ''#000'' = ''oklch(0 0 0)''"
  using hexToOklch_shorthand[of "CHR ''f''" "CHR ''f''" "CHR ''f''"]
    hexToOklch_shorthand[of "CHR ''0''" "CHR ''0''" "CHR ''0''"]
    hexToOklch_white hexToOklch_black
  by (simp add: isHexDigit_def hexDigitValue_def white_channels black_channels
        del: toFixedNumber.simps)

section \<open>Hex strings of four and five digits\<close>

text \<open>
  Claim C10, as amended. A string value of \<open>#\<close> and four or five hexadecimal digits passes
  the format guard, and the resolver returns a non-null string. With four digits the
  blue slice is empty, parses to \<open>NaN\<close>, and the string is \<open>oklch(NaN NaN NaN)\<close>. With
  five digits the blue slice is the single fifth digit, which parses to a number: the
  result is the conversion of the six-digit colour whose blue channel is that digit
  preceded by \<open>0\<close>, an ordinary \<open>oklch\<close> value.
\<close>

theorem short_hex_resolution:
  assumes "variable_id v \<notin> visited"
    and "valuesByMode v m = Some (StringValue (CHR ''#'' # ds))"
    and "list_all isHexDigit ds"
  shows "(length ds = 4 \<longrightarrow>
            hexFormat (CHR ''#'' # ds)
            \<and> resolveVariableValue h v m visited = returns (Some ''oklch(NaN NaN NaN)''))
       \<and> (length ds = 5 \<longrightarrow>
            hexFormat (CHR ''#'' # ds)
            \<and> resolveVariableValue h v m visited
                = returns (Some (hexToOklch (CHR ''#'' # take 4 ds @ [CHR ''0'', ds ! 4]))))"
proof (intro conjI impI)
  assume len: "length ds = 4"
  from assms(3) len show fmt: "hexFormat (CHR ''#'' # ds)" by (simp add: hexFormat_digits)
  from len obtain c1 c2 c3 c4 where ds: "ds = [c1, c2, c3, c4]"
    by (auto simp: length_Suc_conv numeral_eq_Suc)
  show "resolveVariableValue h v m visited = returns (Some ''oklch(NaN NaN NaN)'')"
    using resolve_string[OF assms(1,2) fmt] by (simp add: ds hexToOklch_four)
next
  assume len: "length ds = 5"
  from assms(3) len show fmt: "hexFormat (CHR ''#'' # ds)" by (simp add: hexFormat_digits)
  from len obtain c1 c2 c3 c4 c5 where ds: "ds = [c1, c2, c3, c4, c5]"
    by (auto simp: length_Suc_conv numeral_eq_Suc)
  from assms(3) ds have "isHexDigit c5" by simp
  then show "resolveVariableValue h v m visited
      = returns (Some (hexToOklch (CHR ''#'' # take 4 ds @ [CHR ''0'', ds ! 4])))"
    using resolve_string[OF assms(1,2) fmt] by (simp add: ds hexToOklch_five)
qed

theorem short_hex_resolution_witness:
  "resolveVariableValue empty_host
       (variable_with ''V:1'' ''base/x'' ''C:1'' [''m1'' \<mapsto> StringValue ''#abcd'']) ''m1'' {}
     = returns (Some ''oklch(NaN NaN NaN)'')
   \<and> resolveVariableValue empty_host
       (variable_with ''V:2'' ''base/y'' ''C:1'' [''m1'' \<mapsto> StringValue ''#0000f'']) ''m1'' {}
     = returns (Some (hexToOklch ''#00000f''))"
  using short_hex_resolution[of
          "variable_with ''V:1'' ''base/x'' ''C:1'' [''m1'' \<mapsto> StringValue ''#abcd'']"
          "{}" "''m1''" "''abcd''" empty_host]
        short_hex_resolution[of
          "variable_with ''V:2'' ''base/y'' ''C:1'' [''m1'' \<mapsto> StringValue ''#0000f'']"
          "{}" "''m1''" "''0000f''" empty_host]
  by (simp add: variable_with_def isHexDigit_def hexDigitValue_def)

text \<open>
  The claim as first stated fails for five digits: \<open>#00000\<close> passes the guard and resolves
  to \<open>oklch(0 0 0)\<close>, the value of \<open>#000000\<close>, in which no \<open>NaN\<close> appears.
\<close>

theorem five_digit_hex_counterexample:
  "hexFormat ''#00000''
   \<and> resolveVariableValue empty_host
       (variable_with ''V:3'' ''base/z'' ''C:1'' [''m1'' \<mapsto> StringValue ''#00000'']) ''m1'' {}
     = returns (Some ''oklch(0 0 0)'')
   \<and> \<not> includes_str ''oklch(0 0 0)'' ''NaN''"
proof -
  have fmt: "hexFormat ''#00000''"
    by (rule hexFormat_digits) (simp_all add: isHexDigit_def hexDigitValue_def)
  have "hexToOklch ''#00000'' = hexToOklch ''#000000''"
    by (rule hexToOklch_five) (rule isHexDigit_0)
  then have "hexToOklch ''#00000'' = ''oklch(0 0 0)''" by (simp add: hexToOklch_black)
  moreover have "resolveVariableValue empty_host
       (variable_with ''V:3'' ''base/z'' ''C:1'' [''m1'' \<mapsto> StringValue ''#00000'']) ''m1'' {}
     = returns (Some (hexToOklch ''#00000''))"
    by (rule resolve_string) (simp_all add: variable_with_def fmt)
  ultimately show ?thesis using fmt by simp
qed

end
